theory Spec2Isabelle
  imports Main "HOL-Library.Word" "HOL-Library.Multiset"
begin

section \<open>Data model (tsq/types.go)\<close>

text \<open>
  Go strings are byte sequences; they are modelled as \<open>string\<close>, a list of 8-bit
  characters, so \<open>length\<close> is Go's \<open>len\<close> and the head of the list is \<open>s[0]\<close>.
  Go's \<open>int\<close> is a 64-bit signed integer. The line and column of a position take part in
  arithmetic (\<open>Line - 1\<close> in \<open>findReferences\<close>) and are 64-bit words read with \<open>sint\<close>;
  the other integers (worker counts, byte ceilings, line limits) are only compared and
  assigned, and are modelled as \<open>int\<close>. A nil slice and an empty slice are both \<open>[]\<close>.
\<close>

record Position =
  Line :: "64 word"
  Column :: "64 word"

record Range =
  Start :: Position
  End :: Position

record Symbol =
  s_Name :: string
  s_Kind :: string
  s_Visibility :: string
  s_File :: string
  s_Range :: Range
  s_Signature :: string
  s_Source :: string
  s_Receiver :: string
  s_Doc :: string

record Reference =
  r_Symbol :: string
  r_Kind :: string
  r_File :: string
  r_Position :: Position
  r_Context :: string

record CaptureResult =
  c_Name :: string
  c_NodeType :: string
  c_Text :: string
  c_Range :: Range

record QueryMatch =
  m_File :: string
  m_Pattern :: int
  m_Captures :: "CaptureResult list"

record FileJob =
  AbsPath :: string
  DisplayPath :: string

definition zeroPosition :: Position where
  "zeroPosition = \<lparr>Line = 0, Column = 0\<rparr>"

definition zeroRange :: Range where
  "zeroRange = \<lparr>Start = zeroPosition, End = zeroPosition\<rparr>"

text \<open>The zero value of \<open>var sym Symbol\<close>.\<close>

definition zeroSymbol :: Symbol where
  "zeroSymbol = \<lparr>s_Name = [], s_Kind = [], s_Visibility = [], s_File = [],
     s_Range = zeroRange, s_Signature = [], s_Source = [], s_Receiver = [], s_Doc = []\<rparr>"


section \<open>The parts of Go's standard library that the classifier calls\<close>

text \<open>
  \<open>strings.Fields\<close> and \<open>strings.TrimSpace\<close> split and trim at Unicode white space after
  decoding UTF-8; their tables belong to the Go distribution, not to this repository.
  The classifier takes them as parameters, so every theorem below holds for whatever
  these two functions compute.
\<close>

record golib =
  strings_Fields :: "string \<Rightarrow> string list"
  strings_TrimSpace :: "string \<Rightarrow> string"

definition strings_HasPrefix :: "string \<Rightarrow> string \<Rightarrow> bool" where
  "strings_HasPrefix s p = (take (length p) s = p)"

definition strings_HasSuffix :: "string \<Rightarrow> string \<Rightarrow> bool" where
  "strings_HasSuffix s p = (length p \<le> length s \<and> drop (length s - length p) s = p)"

definition strings_TrimPrefix :: "string \<Rightarrow> string \<Rightarrow> string" where
  "strings_TrimPrefix s p = (if strings_HasPrefix s p then drop (length p) s else s)"

definition strings_TrimSuffix :: "string \<Rightarrow> string \<Rightarrow> string" where
  "strings_TrimSuffix s p = (if strings_HasSuffix s p then take (length s - length p) s else s)"

text \<open>\<open>strings.Split(s, "\n")\<close>: the separator is the single byte 0x0A, and the result
  always has at least one element (\<open>Split("", "\n")\<close> is \<open>[""]\<close>).\<close>

fun split_byte :: "char \<Rightarrow> string \<Rightarrow> string list" where
  "split_byte sep [] = [[]]"
| "split_byte sep (c # cs) =
     (if c = sep then [] # split_byte sep cs
      else (case split_byte sep cs of
              l # ls \<Rightarrow> (c # l) # ls
            | [] \<Rightarrow> [[c]]))"

definition strings_Split_nl :: "string \<Rightarrow> string list" where
  "strings_Split_nl s = split_byte (CHR 0x0A) s"

fun strings_Join :: "string list \<Rightarrow> string \<Rightarrow> string" where
  "strings_Join [] sep = []"
| "strings_Join [x] sep = x"
| "strings_Join (x # y # ys) sep = x @ sep @ strings_Join (y # ys) sep"

text \<open>
  \<open>unicode.IsUpper\<close> on the runes that \<open>rune(name[0])\<close> can produce: a byte converts to
  a code point below 256, and in Latin-1 the upper-case letters are \<open>A\<close>-\<open>Z\<close>,
  U+00C0-U+00D6 and U+00D8-U+00DE.
\<close>

definition unicode_IsUpper_latin1 :: "nat \<Rightarrow> bool" where
  "unicode_IsUpper_latin1 r =
     ((0x41 \<le> r \<and> r \<le> 0x5A) \<or> (0xC0 \<le> r \<and> r \<le> 0xD6) \<or> (0xD8 \<le> r \<and> r \<le> 0xDE))"


section \<open>Classifier (tsq/codesitter.go)\<close>

text \<open>\<open>captures := make(map[string]CaptureResult)\<close>, filled in capture order: a repeated
  name keeps the last capture.\<close>

definition capture_map :: "CaptureResult list \<Rightarrow> (string \<rightharpoonup> CaptureResult)" where
  "capture_map cs = foldl (\<lambda>m c. m(c_Name c \<mapsto> c)) Map.empty cs"

definition getVisibility :: "string \<Rightarrow> string" where
  "getVisibility name =
     (case name of
        [] \<Rightarrow> ''private''
      | b # _ \<Rightarrow> (if unicode_IsUpper_latin1 (of_char b) then ''public'' else ''private''))"

text \<open>The string builder of \<open>buildFuncSignature\<close> is the accumulated string \<open>sb\<close>.\<close>

definition buildFuncSignature :: "(string \<rightharpoonup> CaptureResult) \<Rightarrow> string" where
  "buildFuncSignature captures =
     (let sb = ''func'';
          sb = (case captures ''receiver'' of
                  Some recv \<Rightarrow> sb @ '' '' @ c_Text recv | None \<Rightarrow> sb);
          sb = (case captures ''name'' of
                  Some name \<Rightarrow> sb @ '' '' @ c_Text name | None \<Rightarrow> sb);
          sb = (case captures ''params'' of
                  Some params \<Rightarrow> sb @ c_Text params | None \<Rightarrow> sb);
          sb = (case captures ''result'' of
                  Some result \<Rightarrow> sb @ '' '' @ c_Text result | None \<Rightarrow> sb)
      in sb)"

definition extractReceiverType :: "golib \<Rightarrow> string \<Rightarrow> string" where
  "extractReceiverType lib receiver0 =
     (let receiver = strings_TrimPrefix receiver0 ''('';
          receiver = strings_TrimSuffix receiver '')'';
          parts = strings_Fields lib receiver
      in if length parts \<ge> 2 then strings_TrimPrefix (last parts) ''*''
         else if length parts = 1 then strings_TrimPrefix (hd parts) ''*''
         else receiver)"

definition truncateSource :: "string \<Rightarrow> int \<Rightarrow> string" where
  "truncateSource source maxLines =
     (if maxLines \<le> 0 then source
      else let lines = strings_Split_nl source
           in if int (length lines) \<le> maxLines then source
              else strings_Join (take (nat maxLines) lines) [CHR 0x0A] @ [CHR 0x0A] @ ''...'')"

text \<open>The block \<open>if name, ok := captures["name"]; ok { sym.Name = name.Text;
  sym.Range = name.Range }\<close>, which every branch of the kind decision repeats.\<close>

definition takeName :: "(string \<rightharpoonup> CaptureResult) \<Rightarrow> Symbol \<Rightarrow> Symbol" where
  "takeName captures symb =
     (case captures ''name'' of
        Some name \<Rightarrow> symb\<lparr>s_Name := c_Text name, s_Range := c_Range name\<rparr>
      | None \<Rightarrow> symb)"

text \<open>The kind decision of \<open>parseSymbolFromMatch\<close>: the \<open>if / else if\<close> chain over the
  capture names, \<open>None\<close> where the source returns nil.\<close>

definition classify :: "golib \<Rightarrow> (string \<rightharpoonup> CaptureResult) \<Rightarrow> Symbol option" where
  "classify lib captures =
     (let symb = zeroSymbol in
      if captures ''const'' \<noteq> None then
        Some (takeName captures (symb\<lparr>s_Kind := ''const''\<rparr>))
      else if captures ''var'' \<noteq> None then
        Some (takeName captures (symb\<lparr>s_Kind := ''var''\<rparr>))
      else if captures ''function'' \<noteq> None then
        Some ((takeName captures (symb\<lparr>s_Kind := ''function''\<rparr>))
                \<lparr>s_Signature := buildFuncSignature captures\<rparr>)
      else if captures ''method'' \<noteq> None then
        (let symb = takeName captures (symb\<lparr>s_Kind := ''method''\<rparr>);
             symb = (case captures ''receiver'' of
                      Some recv \<Rightarrow> symb\<lparr>s_Receiver := extractReceiverType lib (c_Text recv)\<rparr>
                    | None \<Rightarrow> symb)
         in Some (symb\<lparr>s_Signature := buildFuncSignature captures\<rparr>))
      else
        (case captures ''type'' of
           Some typeDef \<Rightarrow>
             (let symb = (case captures ''type_def'' of
                           Some typeSpec \<Rightarrow>
                             if strings_HasPrefix (c_NodeType typeSpec) ''struct''
                             then symb\<lparr>s_Kind := ''struct''\<rparr>
                             else if strings_HasPrefix (c_NodeType typeSpec) ''interface''
                             then symb\<lparr>s_Kind := ''interface''\<rparr>
                             else symb\<lparr>s_Kind := ''type''\<rparr>
                         | None \<Rightarrow> symb\<lparr>s_Kind := ''type''\<rparr>);
                  symb = takeName captures symb
              in Some (symb\<lparr>s_Range := c_Range typeDef\<rparr>))
         | None \<Rightarrow> None))"

definition isOuterCapture :: "CaptureResult \<Rightarrow> bool" where
  "isOuterCapture c =
     (c_Name c = ''function'' \<or> c_Name c = ''method'' \<or> c_Name c = ''type''
      \<or> c_Name c = ''const'' \<or> c_Name c = ''var'')"

text \<open>The \<open>includeSource\<close> loop: the first capture with an outer name sets source and
  range, then \<open>break\<close>.\<close>

fun attachSource :: "CaptureResult list \<Rightarrow> int \<Rightarrow> Symbol \<Rightarrow> Symbol" where
  "attachSource [] maxSourceLines symb = symb"
| "attachSource (c # cs) maxSourceLines symb =
     (if isOuterCapture c
      then symb\<lparr>s_Source := truncateSource (c_Text c) maxSourceLines, s_Range := c_Range c\<rparr>
      else attachSource cs maxSourceLines symb)"

definition parseSymbolFromMatch ::
  "golib \<Rightarrow> QueryMatch \<Rightarrow> string \<Rightarrow> bool \<Rightarrow> int \<Rightarrow> Symbol option" where
  "parseSymbolFromMatch lib match source includeSource maxSourceLines =
     (let captures = capture_map (m_Captures match) in
      case classify lib captures of
        None \<Rightarrow> None
      | Some symb \<Rightarrow>
          if s_Name symb = [] then None
          else
            (let symb = symb\<lparr>s_Visibility := getVisibility (s_Name symb)\<rparr>;
                 symb = (if includeSource
                        then attachSource (m_Captures match) maxSourceLines symb
                        else symb)
             in Some (symb\<lparr>s_File := m_File match\<rparr>)))"

text \<open>The visibility \<open>switch\<close> of \<open>extractSymbols\<close>: \<open>True\<close> where the symbol is kept.\<close>

definition visibilityKeeps :: "string \<Rightarrow> Symbol \<Rightarrow> bool" where
  "visibilityKeeps visibility symb =
     (if visibility = ''public'' then s_Visibility symb = ''public''
      else if visibility = ''private'' then s_Visibility symb = ''private''
      else True)"

fun extractSymbols ::
  "golib \<Rightarrow> QueryMatch list \<Rightarrow> string \<Rightarrow> string \<Rightarrow> bool \<Rightarrow> int \<Rightarrow> Symbol list" where
  "extractSymbols lib [] source visibility includeSource maxSourceLines = []"
| "extractSymbols lib (match # matches) source visibility includeSource maxSourceLines =
     (case parseSymbolFromMatch lib match source includeSource maxSourceLines of
        None \<Rightarrow> extractSymbols lib matches source visibility includeSource maxSourceLines
      | Some symb \<Rightarrow>
          if visibilityKeeps visibility symb
          then symb # extractSymbols lib matches source visibility includeSource maxSourceLines
          else extractSymbols lib matches source visibility includeSource maxSourceLines)"


section \<open>Reference finding (tsq/codesitter.go)\<close>

text \<open>A slice index outside the slice panics in Go; the panic is a value of the model.\<close>

datatype go_panic = IndexOutOfRange

definition index_line :: "string list \<Rightarrow> int \<Rightarrow> go_panic + string" where
  "index_line lines i =
     (if 0 \<le> i \<and> i < int (length lines) then Inr (lines ! nat i) else Inl IndexOutOfRange)"

text \<open>The \<open>switch capture.Name\<close> of \<open>findReferences\<close>.\<close>

definition refKind :: "string \<Rightarrow> string" where
  "refKind name =
     (if name = ''call'' then ''call''
      else if name = ''type_ref'' \<or> name = ''composite_type'' then ''type_ref''
      else if name = ''field'' then ''field_access''
      else if name = ''ident'' \<or> name = ''short_var'' then ''identifier''
      else ''reference'')"

text \<open>The body of the inner loop for a capture whose text is the search term.
  \<open>lineIdx\<close> is a Go \<open>int\<close>: the subtraction wraps, the comparisons read it signed.\<close>

definition makeReference ::
  "golib \<Rightarrow> string list \<Rightarrow> string \<Rightarrow> bool \<Rightarrow> QueryMatch \<Rightarrow> CaptureResult
     \<Rightarrow> go_panic + Reference" where
  "makeReference lib lines symbolName includeContext match capture =
     (let rf = \<lparr>r_Symbol = symbolName, r_Kind = [], r_File = m_File match,
                r_Position = \<lparr>Line = Line (Start (c_Range capture)),
                              Column = Column (Start (c_Range capture))\<rparr>,
                r_Context = []\<rparr>;
          rf = rf\<lparr>r_Kind := refKind (c_Name capture)\<rparr>
      in if includeContext then
           (let lineIdx = Line (Start (c_Range capture)) - 1 in
            if 0 \<le> sint lineIdx \<and> sint lineIdx < int (length lines) then
              (case index_line lines (sint lineIdx) of
                 Inl p \<Rightarrow> Inl p
               | Inr l \<Rightarrow> Inr (rf\<lparr>r_Context := strings_TrimSpace lib l\<rparr>))
            else Inr rf)
         else Inr rf)"

text \<open>The inner loop over the captures of one match, and the outer loop over the
  matches; \<open>refs\<close> is the slice built so far.\<close>

fun refsOfCaptures ::
  "golib \<Rightarrow> string list \<Rightarrow> string \<Rightarrow> bool \<Rightarrow> QueryMatch \<Rightarrow> CaptureResult list
     \<Rightarrow> Reference list \<Rightarrow> go_panic + Reference list" where
  "refsOfCaptures lib lines symbolName includeContext match [] refs = Inr refs"
| "refsOfCaptures lib lines symbolName includeContext match (capture # cs) refs =
     (if c_Text capture \<noteq> symbolName
      then refsOfCaptures lib lines symbolName includeContext match cs refs
      else (case makeReference lib lines symbolName includeContext match capture of
              Inl p \<Rightarrow> Inl p
            | Inr rf \<Rightarrow>
                refsOfCaptures lib lines symbolName includeContext match cs (refs @ [rf])))"

fun refsOfMatches ::
  "golib \<Rightarrow> string list \<Rightarrow> string \<Rightarrow> bool \<Rightarrow> QueryMatch list
     \<Rightarrow> Reference list \<Rightarrow> go_panic + Reference list" where
  "refsOfMatches lib lines symbolName includeContext [] refs = Inr refs"
| "refsOfMatches lib lines symbolName includeContext (match # matches) refs =
     (case refsOfCaptures lib lines symbolName includeContext match (m_Captures match) refs of
        Inl p \<Rightarrow> Inl p
      | Inr refs' \<Rightarrow> refsOfMatches lib lines symbolName includeContext matches refs')"

definition findReferences ::
  "golib \<Rightarrow> QueryMatch list \<Rightarrow> string \<Rightarrow> string \<Rightarrow> bool \<Rightarrow> go_panic + Reference list" where
  "findReferences lib matches source symbolName includeContext =
     (let lines = strings_Split_nl source
      in refsOfMatches lib lines symbolName includeContext matches [])"


section \<open>Outline building (tsq/codesitter.go)\<close>

text \<open>\<open>FileOutline\<close> and \<open>ImportInfo\<close> with the fields that \<open>buildOutline\<close> and the test
  harness read.\<close>

record ImportInfo =
  i_Path :: string
  i_Alias :: string

record FileOutline =
  fo_File :: string
  fo_Package :: string
  fo_Imports :: "ImportInfo list"
  fo_Symbols :: "Symbol list"

text \<open>\<open>strings.Trim(s, `"`)\<close>: the cutset is the one ASCII byte 0x22, removed from both
  ends.\<close>

definition strings_Trim_quote :: "string \<Rightarrow> string" where
  "strings_Trim_quote s =
     rev (dropWhile (\<lambda>c. c = CHR 0x22) (rev (dropWhile (\<lambda>c. c = CHR 0x22) s)))"

text \<open>The symbol literal that each declaration branch of \<open>buildOutline\<close> builds from the
  name capture and the declaration capture.\<close>

definition outlineSymbol ::
  "string \<Rightarrow> CaptureResult \<Rightarrow> string \<Rightarrow> CaptureResult \<Rightarrow> bool \<Rightarrow> int \<Rightarrow> Symbol" where
  "outlineSymbol kind name file decl includeSource maxSourceLines =
     \<lparr>s_Name = c_Text name, s_Kind = kind, s_Visibility = getVisibility (c_Text name),
      s_File = file, s_Range = c_Range decl, s_Signature = [],
      s_Source = (if includeSource then truncateSource (c_Text decl) maxSourceLines else []),
      s_Receiver = [], s_Doc = []\<rparr>"

definition appendSymbol :: "FileOutline \<Rightarrow> Symbol \<Rightarrow> FileOutline" where
  "appendSymbol outline symb = outline\<lparr>fo_Symbols := fo_Symbols outline @ [symb]\<rparr>"

text \<open>The loop over \<open>type_alias\<close>, \<open>type_ptr\<close>, \<open>type_slice\<close>, \<open>type_map\<close>, \<open>type_func\<close>:
  the first category that is present decides, then \<open>break\<close>.\<close>

fun outlineTypeCats ::
  "string list \<Rightarrow> (string \<rightharpoonup> CaptureResult) \<Rightarrow> string \<Rightarrow> bool \<Rightarrow> int
     \<Rightarrow> FileOutline \<Rightarrow> FileOutline" where
  "outlineTypeCats [] captures file includeSource maxSourceLines outline = outline"
| "outlineTypeCats (typeCat # cats) captures file includeSource maxSourceLines outline =
     (case captures typeCat of
        Some typeDecl \<Rightarrow>
          (case captures ''type_name'' of
             Some name \<Rightarrow>
               appendSymbol outline
                 (outlineSymbol ''type'' name file typeDecl includeSource maxSourceLines)
           | None \<Rightarrow> outline)
      | None \<Rightarrow> outlineTypeCats cats captures file includeSource maxSourceLines outline)"

text \<open>One iteration of the loop of \<open>buildOutline\<close>. Every branch but the type-category
  loop ends in \<open>continue\<close>; after that loop the constant and variable checks still run.\<close>

definition outlineStep ::
  "string \<Rightarrow> bool \<Rightarrow> int \<Rightarrow> FileOutline \<Rightarrow> QueryMatch \<Rightarrow> FileOutline" where
  "outlineStep file includeSource maxSourceLines outline match =
     (let captures = capture_map (m_Captures match) in
      case captures ''package'' of
        Some pkg \<Rightarrow> outline\<lparr>fo_Package := c_Text pkg\<rparr>
      | None \<Rightarrow>
      (case captures ''path'' of
        Some path \<Rightarrow>
          (let imp = \<lparr>i_Path = strings_Trim_quote (c_Text path), i_Alias = []\<rparr>;
               imp = (case captures ''alias'' of
                        Some alias \<Rightarrow> imp\<lparr>i_Alias := c_Text alias\<rparr> | None \<Rightarrow> imp)
           in outline\<lparr>fo_Imports := fo_Imports outline @ [imp]\<rparr>)
      | None \<Rightarrow>
      (case captures ''function'' of
        Some decl \<Rightarrow>
          (case captures ''func_name'' of
             Some name \<Rightarrow>
               appendSymbol outline
                 (outlineSymbol ''function'' name file decl includeSource maxSourceLines)
           | None \<Rightarrow> outline)
      | None \<Rightarrow>
      (case captures ''method'' of
        Some decl \<Rightarrow>
          (case captures ''method_name'' of
             Some name \<Rightarrow>
               (let symb = outlineSymbol ''method'' name file decl includeSource maxSourceLines;
                    symb = (case captures ''receiver_type'' of
                              Some recv \<Rightarrow>
                                symb\<lparr>s_Receiver := strings_TrimPrefix (c_Text recv) ''*''\<rparr>
                            | None \<Rightarrow> symb)
                in appendSymbol outline symb)
           | None \<Rightarrow> outline)
      | None \<Rightarrow>
      (case captures ''struct'' of
        Some decl \<Rightarrow>
          (case captures ''type_name'' of
             Some name \<Rightarrow>
               appendSymbol outline
                 (outlineSymbol ''struct'' name file decl includeSource maxSourceLines)
           | None \<Rightarrow> outline)
      | None \<Rightarrow>
      (case captures ''interface'' of
        Some decl \<Rightarrow>
          (case captures ''type_name'' of
             Some name \<Rightarrow>
               appendSymbol outline
                 (outlineSymbol ''interface'' name file decl includeSource maxSourceLines)
           | None \<Rightarrow> outline)
      | None \<Rightarrow>
          (let outline = outlineTypeCats
                 [''type_alias'', ''type_ptr'', ''type_slice'', ''type_map'', ''type_func'']
                 captures file includeSource maxSourceLines outline
           in case captures ''const'' of
                Some decl \<Rightarrow>
                  (case captures ''const_name'' of
                     Some name \<Rightarrow>
                       appendSymbol outline
                         (outlineSymbol ''const'' name file decl includeSource maxSourceLines)
                   | None \<Rightarrow> outline)
              | None \<Rightarrow>
                  (case captures ''var'' of
                     Some decl \<Rightarrow>
                       (case captures ''var_name'' of
                          Some name \<Rightarrow>
                            appendSymbol outline
                              (outlineSymbol ''var'' name file decl includeSource maxSourceLines)
                        | None \<Rightarrow> outline)
                   | None \<Rightarrow> outline))))))))"

definition buildOutline ::
  "string \<Rightarrow> QueryMatch list \<Rightarrow> string \<Rightarrow> bool \<Rightarrow> int \<Rightarrow> FileOutline" where
  "buildOutline file matches source includeSource maxSourceLines =
     foldl (outlineStep file includeSource maxSourceLines)
       \<lparr>fo_File = file, fo_Package = [], fo_Imports = [], fo_Symbols = []\<rparr> matches"


section \<open>Options, languages and the collaborators of the aggregators\<close>

record QueryOptions =
  qo_Query :: string
  qo_Language :: string
  qo_Path :: string
  qo_File :: string
  qo_Jobs :: int
  qo_MaxBytes :: int

record SymbolsOptions =
  so_Language :: string
  so_Path :: string
  so_File :: string
  so_Visibility :: string
  so_IncludeSource :: bool
  so_MaxSourceLines :: int
  so_Jobs :: int
  so_MaxBytes :: int

record OutlineOptions =
  oo_Language :: string
  oo_File :: string
  oo_IncludeSource :: bool
  oo_MaxSourceLines :: int

record RefsOptions =
  ro_Symbol :: string
  ro_Language :: string
  ro_Path :: string
  ro_File :: string
  ro_IncludeContext :: bool
  ro_Jobs :: int
  ro_MaxBytes :: int

record SymbolsResult =
  sr_File :: string
  sr_Symbols :: "Symbol list"

record RefsResult =
  rr_Symbol :: string
  rr_References :: "Reference list"

text \<open>The methods of the \<open>Language\<close> interface that return text. The grammar
  (\<open>TreeSitterLang\<close>) is only handed to tree-sitter and stays inside the engine below.\<close>

record Language =
  l_Name :: string
  l_Extensions :: "string list"
  l_SymbolsQuery :: string
  l_OutlineQuery :: string
  l_RefsQuery :: string

text \<open>The configuration that the aggregators give to \<open>newScanner\<close>; they never set
  \<open>ignoreDirs\<close>, which \<open>newScanner\<close> then fills with the default list.\<close>

record scannerConfig =
  sc_root :: string
  sc_language :: Language
  sc_maxBytes :: int

datatype go_error = Error string

text \<open>\<open>fmt.Errorf(prefix + ": %w", err)\<close>.\<close>

fun wrapError :: "string \<Rightarrow> go_error \<Rightarrow> go_error" where
  "wrapError prefix (Error msg) = Error (prefix @ '': '' @ msg)"

text \<open>
  What the aggregators reach outside the classifier: the package-level language registry,
  \<open>runtime.NumCPU\<close>, tree-sitter (query compilation, parsing, running a compiled query),
  the file system (\<open>filepath.Abs\<close>, \<open>filepath.Base\<close>, \<open>os.ReadFile\<close>) and the directory
  walk of \<open>scanner.collect\<close>. They are fields of a record, so the theorems hold for every
  registry, every file system and every grammar. \<open>'q\<close> is a compiled query, \<open>'t\<close> a
  syntax tree.
\<close>

record ('q, 't) engine =
  registry :: "string \<rightharpoonup> Language"
  runtime_NumCPU :: int
  stdlib :: golib
  sitter_NewQuery :: "string \<Rightarrow> Language \<Rightarrow> go_error + 'q"
  sitter_Parse :: "Language \<Rightarrow> string \<Rightarrow> 't"
  query_run :: "'q \<Rightarrow> 't \<Rightarrow> string \<Rightarrow> string \<Rightarrow> QueryMatch list"
  filepath_Abs :: "string \<Rightarrow> go_error + string"
  filepath_Base :: "string \<Rightarrow> string"
  os_ReadFile :: "string \<Rightarrow> go_error + string"
  scanner_collect :: "scannerConfig \<Rightarrow> go_error + FileJob list"

text \<open>The effects of a call that the claims speak about, in the order in which they
  happen: a file named for single-file mode, a directory walk with its configuration, a
  worker goroutine started, a file read and parsed.\<close>

datatype event =
    EvCollectSingle string
  | EvCollect scannerConfig
  | EvSpawnWorker
  | EvParseFile string

definition Get :: "('q, 't) engine \<Rightarrow> string \<Rightarrow> Language option" where
  "Get eng name = registry eng name"

definition newQuery :: "('q, 't) engine \<Rightarrow> string \<Rightarrow> Language \<Rightarrow> go_error + 'q" where
  "newQuery eng queryStr language =
     (case sitter_NewQuery eng queryStr language of
        Inl err \<Rightarrow> Inl (wrapError ''compile query'' err)
      | Inr q \<Rightarrow> Inr q)"

definition parseFile ::
  "('q, 't) engine \<Rightarrow> Language \<Rightarrow> string \<Rightarrow> go_error + ('t \<times> string)" where
  "parseFile eng language path =
     (case os_ReadFile eng path of
        Inl err \<Rightarrow> Inl (wrapError ''read file'' err)
      | Inr source \<Rightarrow> Inr (sitter_Parse eng language source, source))"

definition collectSingle :: "('q, 't) engine \<Rightarrow> string \<Rightarrow> go_error + FileJob" where
  "collectSingle eng filePath =
     (case filepath_Abs eng filePath of
        Inl err \<Rightarrow> Inl (wrapError ''resolve path'' err)
      | Inr absPath \<Rightarrow> Inr \<lparr>AbsPath = absPath, DisplayPath = filepath_Base eng absPath\<rparr>)"

text \<open>The block \<open>var files []FileJob; if opts.File != "" { ... } else { ... }\<close> that
  \<open>Query\<close>, \<open>Symbols\<close> and \<open>Refs\<close> share: single-file mode bypasses the walk.\<close>

definition resolveFiles ::
  "('q, 't) engine \<Rightarrow> Language \<Rightarrow> string \<Rightarrow> string \<Rightarrow> int
     \<Rightarrow> event list \<times> (go_error + FileJob list)" where
  "resolveFiles eng language file path maxBytes =
     (if file \<noteq> [] then
        (case collectSingle eng file of
           Inl err \<Rightarrow> ([EvCollectSingle file], Inl err)
         | Inr job \<Rightarrow> ([EvCollectSingle file], Inr [job]))
      else
        (let cfg = \<lparr>sc_root = path, sc_language = language, sc_maxBytes = maxBytes\<rparr>
         in case scanner_collect eng cfg of
              Inl err \<Rightarrow> ([EvCollect cfg], Inl err)
            | Inr files \<Rightarrow> ([EvCollect cfg], Inr files)))"


section \<open>Worker pools (tsq/codesitter.go)\<close>

text \<open>
  A pool is \<open>workerCount\<close> goroutines that receive jobs from one queue, filled in file
  order, and send their items to one result channel, which the caller drains in arrival
  order. Which worker moves next is decided by the Go scheduler; the model takes that
  decision as a list \<open>sched\<close> of worker indices. A move of worker \<open>i\<close> sends its next
  pending item; with nothing pending it takes the next job from the queue (reading and
  parsing the file) and the items of that job become pending; with an empty queue it
  does nothing. When the list is used up, the pending items are sent worker by worker
  and the first worker handles the jobs still queued. Every run of the pool is the run
  of some list, so a statement for all \<open>sched\<close> is a statement about every interleaving.
  Without workers nothing is received and the result is empty.
\<close>

fun pool_run ::
  "(FileJob \<Rightarrow> 'r list) \<Rightarrow> nat list \<Rightarrow> FileJob list \<Rightarrow> 'r list list
     \<Rightarrow> event list \<Rightarrow> 'r list \<Rightarrow> event list \<times> 'r list" where
  "pool_run work [] queue ws log out =
     (if ws = [] then (log, out)
      else (log @ map (\<lambda>job. EvParseFile (AbsPath job)) queue,
            out @ concat ws @ concat (map work queue)))"
| "pool_run work (i # sched) queue ws log out =
     (if i < length ws then
        (case ws ! i of
           x # xs \<Rightarrow> pool_run work sched queue (ws[i := xs]) log (out @ [x])
         | [] \<Rightarrow>
             (case queue of
                [] \<Rightarrow> pool_run work sched queue ws log out
              | job # rest \<Rightarrow>
                  pool_run work sched rest (ws[i := work job])
                    (log @ [EvParseFile (AbsPath job)]) out))
      else pool_run work sched queue ws log out)"

text \<open>The clamp that the three pools apply to \<open>jobs\<close>.\<close>

definition clampWorkers :: "int \<Rightarrow> FileJob list \<Rightarrow> int" where
  "clampWorkers jobs files =
     (let workerCount = jobs;
          workerCount = (if workerCount < 1 then 1 else workerCount);
          workerCount = (if workerCount > int (length files) then int (length files)
                         else workerCount)
      in workerCount)"

text \<open>\<open>wg.Add(workerCount)\<close> and the loop of \<open>go worker()\<close>, then the run of the pool.\<close>

definition spawnPool ::
  "(FileJob \<Rightarrow> 'r list) \<Rightarrow> nat list \<Rightarrow> FileJob list \<Rightarrow> int \<Rightarrow> event list \<times> 'r list" where
  "spawnPool work sched files workerCount =
     (case pool_run work sched files (replicate (nat workerCount) []) [] [] of
        (log, out) \<Rightarrow> (replicate (nat workerCount) EvSpawnWorker @ log, out))"

definition queryWorker ::
  "('q, 't) engine \<Rightarrow> Language \<Rightarrow> 'q \<Rightarrow> FileJob \<Rightarrow> QueryMatch list" where
  "queryWorker eng language query job =
     (case parseFile eng language (AbsPath job) of
        Inl err \<Rightarrow> []
      | Inr (tree, source) \<Rightarrow> query_run eng query tree source (DisplayPath job))"

definition runQueryWorkers ::
  "('q, 't) engine \<Rightarrow> nat list \<Rightarrow> Language \<Rightarrow> 'q \<Rightarrow> FileJob list \<Rightarrow> int
     \<Rightarrow> event list \<times> QueryMatch list" where
  "runQueryWorkers eng sched language query files jobs =
     spawnPool (queryWorker eng language query) sched files (clampWorkers jobs files)"

definition symbolsWorker ::
  "('q, 't) engine \<Rightarrow> Language \<Rightarrow> 'q \<Rightarrow> string \<Rightarrow> bool \<Rightarrow> int \<Rightarrow> FileJob
     \<Rightarrow> SymbolsResult list" where
  "symbolsWorker eng language query visibility includeSource maxSourceLines job =
     (case parseFile eng language (AbsPath job) of
        Inl err \<Rightarrow> []
      | Inr (tree, source) \<Rightarrow>
          (let matches = query_run eng query tree source (DisplayPath job);
               symbols = extractSymbols (stdlib eng) matches source visibility includeSource
                           maxSourceLines
           in if length symbols > 0
              then [\<lparr>sr_File = DisplayPath job, sr_Symbols = symbols\<rparr>]
              else []))"

definition runSymbolsWorkers ::
  "('q, 't) engine \<Rightarrow> nat list \<Rightarrow> Language \<Rightarrow> 'q \<Rightarrow> FileJob list \<Rightarrow> int \<Rightarrow> string
     \<Rightarrow> bool \<Rightarrow> int \<Rightarrow> event list \<times> SymbolsResult list" where
  "runSymbolsWorkers eng sched language query files jobs visibility includeSource
       maxSourceLines =
     spawnPool (symbolsWorker eng language query visibility includeSource maxSourceLines)
       sched files (clampWorkers jobs files)"

text \<open>A panic in a worker goroutine ends the program; the worker of \<open>runRefsWorkers\<close>
  passes the panic of \<open>findReferences\<close> on as an item, and the pool's result is that
  panic if any item is one.\<close>

definition refsWorker ::
  "('q, 't) engine \<Rightarrow> Language \<Rightarrow> 'q \<Rightarrow> string \<Rightarrow> bool \<Rightarrow> FileJob
     \<Rightarrow> (go_panic + Reference) list" where
  "refsWorker eng language query symbolName includeContext job =
     (case parseFile eng language (AbsPath job) of
        Inl err \<Rightarrow> []
      | Inr (tree, source) \<Rightarrow>
          (let matches = query_run eng query tree source (DisplayPath job)
           in case findReferences (stdlib eng) matches source symbolName includeContext of
                Inl p \<Rightarrow> [Inl p]
              | Inr refs \<Rightarrow> map Inr refs))"

fun firstPanic :: "(go_panic + 'a) list \<Rightarrow> go_panic + 'a list" where
  "firstPanic [] = Inr []"
| "firstPanic (Inl p # items) = Inl p"
| "firstPanic (Inr x # items) =
     (case firstPanic items of Inl p \<Rightarrow> Inl p | Inr xs \<Rightarrow> Inr (x # xs))"

definition runRefsWorkers ::
  "('q, 't) engine \<Rightarrow> nat list \<Rightarrow> Language \<Rightarrow> 'q \<Rightarrow> FileJob list \<Rightarrow> int \<Rightarrow> string
     \<Rightarrow> bool \<Rightarrow> event list \<times> (go_panic + Reference list)" where
  "runRefsWorkers eng sched language query files jobs symbolName includeContext =
     (case spawnPool (refsWorker eng language query symbolName includeContext)
             sched files (clampWorkers jobs files) of
        (log, items) \<Rightarrow> (log, firstPanic items))"


section \<open>Aggregators (tsq/codesitter.go)\<close>

text \<open>Each aggregator returns the events of the call and its result. The assignments
  to the fields of \<open>opts\<close> that fill in the defaults are the \<open>let\<close> bindings of the field
  values. The result of \<open>Refs\<close> is a panic, an error or the references found.\<close>

definition Query ::
  "('q, 't) engine \<Rightarrow> nat list \<Rightarrow> QueryOptions
     \<Rightarrow> event list \<times> (go_error + QueryMatch list)" where
  "Query eng sched opts =
     (if qo_Query opts = [] then ([], Inl (Error ''query is required''))
      else
        (let Language = (if qo_Language opts = [] then ''go'' else qo_Language opts);
             Path = (if qo_Path opts = [] then ''.'' else qo_Path opts);
             Jobs = (if qo_Jobs opts = 0 then runtime_NumCPU eng else qo_Jobs opts);
             MaxBytes = (if qo_MaxBytes opts = 0 then 2 * 1024 * 1024 else qo_MaxBytes opts)
         in case Get eng Language of
              None \<Rightarrow> ([], Inl (Error (Language @ '' language not registered'')))
            | Some language \<Rightarrow>
                (case newQuery eng (qo_Query opts) language of
                   Inl err \<Rightarrow> ([], Inl err)
                 | Inr query \<Rightarrow>
                     (case resolveFiles eng language (qo_File opts) Path MaxBytes of
                        (evs, Inl err) \<Rightarrow> (evs, Inl err)
                      | (evs, Inr files) \<Rightarrow>
                          if length files = 0 then (evs, Inr [])
                          else
                            (case runQueryWorkers eng sched language query files Jobs of
                               (log, matches) \<Rightarrow> (evs @ log, Inr matches))))))"

definition Symbols ::
  "('q, 't) engine \<Rightarrow> nat list \<Rightarrow> SymbolsOptions
     \<Rightarrow> event list \<times> (go_error + SymbolsResult list)" where
  "Symbols eng sched opts =
     (let Language = (if so_Language opts = [] then ''go'' else so_Language opts);
          Path = (if so_Path opts = [] then ''.'' else so_Path opts);
          Visibility = (if so_Visibility opts = [] then ''all'' else so_Visibility opts);
          MaxSourceLines = (if so_MaxSourceLines opts = 0 then 10 else so_MaxSourceLines opts);
          Jobs = (if so_Jobs opts = 0 then runtime_NumCPU eng else so_Jobs opts);
          MaxBytes = (if so_MaxBytes opts = 0 then 2 * 1024 * 1024 else so_MaxBytes opts)
      in case Get eng Language of
           None \<Rightarrow> ([], Inl (Error (Language @ '' language not registered'')))
         | Some language \<Rightarrow>
             (case newQuery eng (l_SymbolsQuery language) language of
                Inl err \<Rightarrow> ([], Inl err)
              | Inr query \<Rightarrow>
                  (case resolveFiles eng language (so_File opts) Path MaxBytes of
                     (evs, Inl err) \<Rightarrow> (evs, Inl err)
                   | (evs, Inr files) \<Rightarrow>
                       if length files = 0 then (evs, Inr [])
                       else
                         (case runSymbolsWorkers eng sched language query files Jobs
                                 Visibility (so_IncludeSource opts) MaxSourceLines of
                            (log, results) \<Rightarrow> (evs @ log, Inr results)))))"

definition Outline ::
  "('q, 't) engine \<Rightarrow> OutlineOptions \<Rightarrow> event list \<times> (go_error + FileOutline)" where
  "Outline eng opts =
     (if oo_File opts = [] then ([], Inl (Error ''file is required''))
      else
        (let Language = (if oo_Language opts = [] then ''go'' else oo_Language opts);
             MaxSourceLines = (if oo_MaxSourceLines opts = 0 then 5 else oo_MaxSourceLines opts)
         in case Get eng Language of
              None \<Rightarrow> ([], Inl (Error (Language @ '' language not registered'')))
            | Some language \<Rightarrow>
                (case newQuery eng (l_OutlineQuery language) language of
                   Inl err \<Rightarrow> ([], Inl err)
                 | Inr query \<Rightarrow>
                     (case collectSingle eng (oo_File opts) of
                        Inl err \<Rightarrow> ([EvCollectSingle (oo_File opts)], Inl err)
                      | Inr job \<Rightarrow>
                          (case parseFile eng language (AbsPath job) of
                             Inl err \<Rightarrow>
                               ([EvCollectSingle (oo_File opts), EvParseFile (AbsPath job)],
                                Inl err)
                           | Inr (tree, source) \<Rightarrow>
                               (let matches = query_run eng query tree source (DisplayPath job);
                                    outline = buildOutline (DisplayPath job) matches source
                                                (oo_IncludeSource opts) MaxSourceLines
                                in ([EvCollectSingle (oo_File opts), EvParseFile (AbsPath job)],
                                    Inr outline)))))))"

definition Refs ::
  "('q, 't) engine \<Rightarrow> nat list \<Rightarrow> RefsOptions
     \<Rightarrow> event list \<times> (go_panic + (go_error + RefsResult))" where
  "Refs eng sched opts =
     (if ro_Symbol opts = [] then ([], Inr (Inl (Error ''symbol is required'')))
      else
        (let Language = (if ro_Language opts = [] then ''go'' else ro_Language opts);
             Path = (if ro_Path opts = [] then ''.'' else ro_Path opts);
             Jobs = (if ro_Jobs opts = 0 then runtime_NumCPU eng else ro_Jobs opts);
             MaxBytes = (if ro_MaxBytes opts = 0 then 2 * 1024 * 1024 else ro_MaxBytes opts)
         in case Get eng Language of
              None \<Rightarrow> ([], Inr (Inl (Error (Language @ '' language not registered''))))
            | Some language \<Rightarrow>
                (case newQuery eng (l_RefsQuery language) language of
                   Inl err \<Rightarrow> ([], Inr (Inl err))
                 | Inr query \<Rightarrow>
                     (case resolveFiles eng language (ro_File opts) Path MaxBytes of
                        (evs, Inl err) \<Rightarrow> (evs, Inr (Inl err))
                      | (evs, Inr files) \<Rightarrow>
                          if length files = 0
                          then (evs, Inr (Inr \<lparr>rr_Symbol = ro_Symbol opts, rr_References = []\<rparr>))
                          else
                            (case runRefsWorkers eng sched language query files Jobs
                                    (ro_Symbol opts) (ro_IncludeContext opts) of
                               (log, Inl p) \<Rightarrow> (evs @ log, Inl p)
                             | (log, Inr refs) \<Rightarrow>
                                 (evs @ log,
                                  Inr (Inr \<lparr>rr_Symbol = ro_Symbol opts,
                                            rr_References = refs\<rparr>)))))))"


section \<open>Vocabulary of the specification\<close>

text \<open>The captures of a list of matches whose text is the search term, each with its
  match, in the order in which \<open>findReferences\<close> visits them.\<close>

definition matchingCaptures :: "QueryMatch list \<Rightarrow> string \<Rightarrow> (QueryMatch \<times> CaptureResult) list" where
  "matchingCaptures ms S =
     concat (map (\<lambda>m. map (Pair m) (filter (\<lambda>c. c_Text c = S) (m_Captures m))) ms)"

text \<open>The reference that one such capture gives: search term, kind by capture name,
  file of the match, start position of the capture, and the trimmed source line when
  context is requested and the line index is inside \<open>lines\<close>.\<close>

definition referenceFor ::
  "golib \<Rightarrow> string list \<Rightarrow> string \<Rightarrow> bool \<Rightarrow> QueryMatch \<times> CaptureResult \<Rightarrow> Reference" where
  "referenceFor lib lines S ctx mc =
     \<lparr>r_Symbol = S, r_Kind = refKind (c_Name (snd mc)), r_File = m_File (fst mc),
      r_Position = Start (c_Range (snd mc)),
      r_Context =
        (if ctx \<and> 0 \<le> sint (Line (Start (c_Range (snd mc))) - 1)
              \<and> sint (Line (Start (c_Range (snd mc))) - 1) < int (length lines)
         then strings_TrimSpace lib (lines ! nat (sint (Line (Start (c_Range (snd mc))) - 1)))
         else [])\<rparr>"

text \<open>One optional part of a signature: the separator and the capture's text if the
  capture is present, nothing otherwise.\<close>

definition sigPart :: "(string \<rightharpoonup> CaptureResult) \<Rightarrow> string \<Rightarrow> string \<Rightarrow> string" where
  "sigPart captures sep k = (case captures k of Some c \<Rightarrow> sep @ c_Text c | None \<Rightarrow> [])"

text \<open>The signature as the specification words it: the function keyword and the
  present parts among receiver, name, parameter list and result, joined by single
  spaces.\<close>

definition signature_as_specified :: "(string \<rightharpoonup> CaptureResult) \<Rightarrow> string" where
  "signature_as_specified captures =
     strings_Join (''func'' # map c_Text
       (List.map_filter captures [''receiver'', ''name'', ''params'', ''result''])) '' ''"

text \<open>The first code point of a UTF-8 string whose first character is encoded in one or
  two bytes (U+0000 to U+07FF); \<open>None\<close> for the empty string and for longer or invalid
  encodings.\<close>

definition utf8_first :: "string \<Rightarrow> nat option" where
  "utf8_first s =
     (case s of
        [] \<Rightarrow> None
      | b0 # rest \<Rightarrow>
          if (of_char b0 :: nat) < 0x80 then Some (of_char b0)
          else if 0xC2 \<le> (of_char b0 :: nat) \<and> (of_char b0 :: nat) \<le> 0xDF then
            (case rest of
               b1 # _ \<Rightarrow>
                 if 0x80 \<le> (of_char b1 :: nat) \<and> (of_char b1 :: nat) \<le> 0xBF
                 then Some ((of_char b0 - 0xC0) * 64 + (of_char b1 - 0x80))
                 else None
             | [] \<Rightarrow> None)
          else None)"


text \<open>A file is readable when \<open>parseFile\<close> returns no error for it. For a readable
  file: its source, the matches of a compiled query on it, the one \<open>SymbolsResult\<close> it
  gives (none when no symbol is extracted) and the references found in it.\<close>

definition readable :: "('q, 't) engine \<Rightarrow> Language \<Rightarrow> FileJob \<Rightarrow> bool" where
  "readable eng language job = (\<not> isl (parseFile eng language (AbsPath job)))"

definition fileSource :: "('q, 't) engine \<Rightarrow> Language \<Rightarrow> FileJob \<Rightarrow> string" where
  "fileSource eng language job = snd (projr (parseFile eng language (AbsPath job)))"

definition fileMatches :: "('q, 't) engine \<Rightarrow> Language \<Rightarrow> 'q \<Rightarrow> FileJob \<Rightarrow> QueryMatch list" where
  "fileMatches eng language query job =
     query_run eng query (fst (projr (parseFile eng language (AbsPath job))))
       (fileSource eng language job) (DisplayPath job)"

definition fileSymbols ::
  "('q, 't) engine \<Rightarrow> Language \<Rightarrow> 'q \<Rightarrow> string \<Rightarrow> bool \<Rightarrow> int \<Rightarrow> FileJob
     \<Rightarrow> SymbolsResult list" where
  "fileSymbols eng language query visibility includeSource maxSourceLines job =
     (if extractSymbols (stdlib eng) (fileMatches eng language query job)
           (fileSource eng language job) visibility includeSource maxSourceLines = []
      then []
      else [\<lparr>sr_File = DisplayPath job,
             sr_Symbols = extractSymbols (stdlib eng) (fileMatches eng language query job)
                            (fileSource eng language job) visibility includeSource
                            maxSourceLines\<rparr>])"

definition fileReferences ::
  "('q, 't) engine \<Rightarrow> Language \<Rightarrow> 'q \<Rightarrow> string \<Rightarrow> bool \<Rightarrow> FileJob \<Rightarrow> Reference list" where
  "fileReferences eng language query symbolName includeContext job =
     map (referenceFor (stdlib eng) (strings_Split_nl (fileSource eng language job))
            symbolName includeContext)
       (matchingCaptures (fileMatches eng language query job) symbolName)"

text \<open>The number of worker goroutines that a call started.\<close>

definition spawned :: "event list \<Rightarrow> nat" where
  "spawned evs = length (filter (\<lambda>e. e = EvSpawnWorker) evs)"

text \<open>The value of a configuration field after the defaults are filled in: the default
  \<open>d\<close> where the field has its zero value, the field otherwise.\<close>

definition orDefault :: "'a \<Rightarrow> 'a \<Rightarrow> 'a \<Rightarrow> 'a" where
  "orDefault zero d v = (if v = zero then d else v)"


section \<open>Example inputs\<close>

text \<open>An instance of the two library functions for ASCII input, where white space is one
  of the six bytes tab, line feed, vertical tab, form feed, carriage return and space.
  It is used to evaluate the examples only.\<close>

definition asciiSpace :: "char \<Rightarrow> bool" where
  "asciiSpace c = (c = CHR 0x09 \<or> c = CHR 0x0A \<or> c = CHR 0x0B \<or> c = CHR 0x0C
                   \<or> c = CHR 0x0D \<or> c = CHR 0x20)"

fun ascii_fields :: "string \<Rightarrow> string \<Rightarrow> string list" where
  "ascii_fields cur [] = (if cur = [] then [] else [cur])"
| "ascii_fields cur (c # cs) =
     (if asciiSpace c then (if cur = [] then ascii_fields [] cs else cur # ascii_fields [] cs)
      else ascii_fields (cur @ [c]) cs)"

definition ascii_lib :: golib where
  "ascii_lib = \<lparr>strings_Fields = ascii_fields [],
                strings_TrimSpace = (\<lambda>s. rev (dropWhile asciiSpace (rev (dropWhile asciiSpace s))))\<rparr>"

definition capture_at :: "string \<Rightarrow> string \<Rightarrow> string \<Rightarrow> 64 word \<Rightarrow> 64 word \<Rightarrow> CaptureResult" where
  "capture_at name nodeType text line col =
     \<lparr>c_Name = name, c_NodeType = nodeType, c_Text = text,
      c_Range = \<lparr>Start = \<lparr>Line = line, Column = col\<rparr>, End = \<lparr>Line = line, Column = col\<rparr>\<rparr>\<rparr>"

definition example_const_with_type :: QueryMatch where
  "example_const_with_type =
     \<lparr>m_File = ''a.go'', m_Pattern = 0,
      m_Captures = [capture_at ''const'' ''const_declaration'' ''const x int = 1'' 1 1,
                    capture_at ''name'' ''identifier'' ''x'' 1 7,
                    capture_at ''type'' ''type_identifier'' ''int'' 1 9]\<rparr>"

definition example_func_hello :: QueryMatch where
  "example_func_hello =
     \<lparr>m_File = ''a.go'', m_Pattern = 0,
      m_Captures = [capture_at ''function'' ''function_declaration'' ''func Hello() {}'' 1 1,
                    capture_at ''name'' ''identifier'' ''Hello'' 1 6,
                    capture_at ''params'' ''parameter_list'' ''()'' 1 11]\<rparr>"

definition example_unnamed_function :: QueryMatch where
  "example_unnamed_function =
     \<lparr>m_File = ''a.go'', m_Pattern = 0,
      m_Captures = [capture_at ''function'' ''function_declaration'' ''func Hello() {}'' 1 1]\<rparr>"

definition example_method :: QueryMatch where
  "example_method =
     \<lparr>m_File = ''a.go'', m_Pattern = 1,
      m_Captures = [capture_at ''method'' ''method_declaration''
                      ''func (r *T) Get(k string) int { return 0 }'' 3 1,
                    capture_at ''receiver'' ''parameter_list'' ''(r *T)'' 3 6,
                    capture_at ''name'' ''field_identifier'' ''Get'' 3 13,
                    capture_at ''params'' ''parameter_list'' ''(k string)'' 3 16,
                    capture_at ''result'' ''type_identifier'' ''int'' 3 27]\<rparr>"

definition example_refs_source :: string where
  "example_refs_source =
     ''package p'' @ [CHR 0x0A] @ [CHR 0x09] @ ''x := Foo(1)  '' @ [CHR 0x0A] @ ''var y Foo''"

definition example_refs_matches :: "QueryMatch list" where
  "example_refs_matches =
     [\<lparr>m_File = ''a.go'', m_Pattern = 0,
       m_Captures = [capture_at ''call'' ''identifier'' ''Foo'' 2 7]\<rparr>,
      \<lparr>m_File = ''a.go'', m_Pattern = 1,
       m_Captures = [capture_at ''ident'' ''identifier'' ''x'' 2 2]\<rparr>,
      \<lparr>m_File = ''a.go'', m_Pattern = 2,
       m_Captures = [capture_at ''type_ref'' ''type_identifier'' ''Foo'' 3 7]\<rparr>,
      \<lparr>m_File = ''a.go'', m_Pattern = 3,
       m_Captures = [capture_at ''selector'' ''identifier'' ''Foo'' 9 1,
                     capture_at ''field'' ''field_identifier'' ''Foo'' 0 1]\<rparr>]"



text \<open>A registry with the one language \<open>go\<close>, a directory of three files of which
  \<open>b.go\<close> cannot be read, and an engine whose queries match a function declaration at
  the start of a file.\<close>

definition example_go :: Language where
  "example_go = \<lparr>l_Name = ''go'', l_Extensions = [''.go''], l_SymbolsQuery = ''(symbols)'',
     l_OutlineQuery = ''(outline)'', l_RefsQuery = ''(refs)''\<rparr>"

definition example_run :: "string \<Rightarrow> string \<Rightarrow> string \<Rightarrow> string \<Rightarrow> QueryMatch list" where
  "example_run q tree source display =
     (if take 5 source = ''func '' then
        [\<lparr>m_File = display, m_Pattern = 0,
          m_Captures =
            [capture_at ''function'' ''function_declaration'' source 1 1,
             capture_at ''name'' ''identifier''
               (takeWhile (\<lambda>c. c \<noteq> CHR ''('') (drop 5 source)) 1 6]\<rparr>]
      else [])"

definition example_files :: "FileJob list" where
  "example_files =
     [\<lparr>AbsPath = ''/repo/a.go'', DisplayPath = ''a.go''\<rparr>,
      \<lparr>AbsPath = ''/repo/b.go'', DisplayPath = ''b.go''\<rparr>,
      \<lparr>AbsPath = ''/repo/c.go'', DisplayPath = ''c.go''\<rparr>]"

definition example_engine :: "(string, string) engine" where
  "example_engine =
     \<lparr>registry = [''go'' \<mapsto> example_go],
      runtime_NumCPU = 4,
      stdlib = ascii_lib,
      sitter_NewQuery = (\<lambda>q l. if q = [] then Inl (Error ''empty query'') else Inr q),
      sitter_Parse = (\<lambda>l source. source),
      query_run = example_run,
      filepath_Abs = (\<lambda>p. Inr (''/repo/'' @ p)),
      filepath_Base = (\<lambda>p. rev (takeWhile (\<lambda>c. c \<noteq> CHR ''/'') (rev p))),
      os_ReadFile = (\<lambda>p. if p = ''/repo/a.go'' then Inr ''func Hello() {}''
                          else if p = ''/repo/c.go'' then Inr ''func world() {}''
                          else Inl (Error ''permission denied'')),
      scanner_collect = (\<lambda>cfg. if sc_root cfg = ''empty'' then Inr [] else Inr example_files)\<rparr>"

definition example_query_options :: QueryOptions where
  "example_query_options =
     \<lparr>qo_Query = ''(function_declaration) @function'', qo_Language = [], qo_Path = ''src'',
      qo_File = [], qo_Jobs = 0, qo_MaxBytes = 0\<rparr>"

definition example_symbols_options :: SymbolsOptions where
  "example_symbols_options =
     \<lparr>so_Language = ''go'', so_Path = ''src'', so_File = [], so_Visibility = [],
      so_IncludeSource = False, so_MaxSourceLines = 0, so_Jobs = 0, so_MaxBytes = 0\<rparr>"

definition example_refs_options :: RefsOptions where
  "example_refs_options =
     \<lparr>ro_Symbol = ''Hello'', ro_Language = ''go'', ro_Path = ''src'', ro_File = [],
      ro_IncludeContext = True, ro_Jobs = -3, ro_MaxBytes = 0\<rparr>"

definition example_outline_options :: OutlineOptions where
  "example_outline_options =
     \<lparr>oo_Language = ''rust'', oo_File = ''a.go'', oo_IncludeSource = False,
      oo_MaxSourceLines = 0\<rparr>"


section \<open>Properties of the classifier\<close>

lemma foldl_capture_dom:
  "(foldl (\<lambda>m c. m(c_Name c \<mapsto> c)) m0 cs k \<noteq> None) = (m0 k \<noteq> None \<or> k \<in> c_Name ` set cs)"
  by (induction cs arbitrary: m0) auto

lemma capture_map_present: "(capture_map cs k \<noteq> None) = (k \<in> c_Name ` set cs)"
  using foldl_capture_dom [of Map.empty cs k] by (simp add: capture_map_def)

lemma takeName_Kind: "s_Kind (takeName caps s) = s_Kind s"
  by (simp add: takeName_def split: option.splits)

lemma takeName_Name:
  "s_Name (takeName caps s) = (case caps ''name'' of Some c \<Rightarrow> c_Text c | None \<Rightarrow> s_Name s)"
  by (simp add: takeName_def split: option.splits)

lemma classify_Kind:
  "classify lib caps = Some s \<Longrightarrow>
   s_Kind s =
     (if caps ''const'' \<noteq> None then ''const''
      else if caps ''var'' \<noteq> None then ''var''
      else if caps ''function'' \<noteq> None then ''function''
      else if caps ''method'' \<noteq> None then ''method''
      else (case caps ''type_def'' of
              Some t \<Rightarrow> if strings_HasPrefix (c_NodeType t) ''struct'' then ''struct''
                        else if strings_HasPrefix (c_NodeType t) ''interface'' then ''interface''
                        else ''type''
            | None \<Rightarrow> ''type''))"
  unfolding classify_def Let_def
  by (auto simp: takeName_Kind split: option.splits if_splits)

lemma classify_None:
  "(classify lib caps = None) =
   (caps ''const'' = None \<and> caps ''var'' = None \<and> caps ''function'' = None
     \<and> caps ''method'' = None \<and> caps ''type'' = None)"
  unfolding classify_def Let_def
  by (auto split: option.splits if_splits)

lemma classify_Name:
  "classify lib caps = Some s \<Longrightarrow>
   s_Name s = (case caps ''name'' of Some c \<Rightarrow> c_Text c | None \<Rightarrow> [])"
  unfolding classify_def Let_def
  by (auto simp: takeName_Name zeroSymbol_def split: option.splits if_splits)

lemma attachSource_keeps: "s_Kind (attachSource cs n s) = s_Kind s \<and> s_Name (attachSource cs n s) = s_Name s
  \<and> s_Signature (attachSource cs n s) = s_Signature s \<and> s_Visibility (attachSource cs n s) = s_Visibility s"
  by (induction cs) auto

lemma parse_Some:
  "parseSymbolFromMatch lib m src inc n = Some s \<Longrightarrow>
   \<exists>s0. classify lib (capture_map (m_Captures m)) = Some s0 \<and> s_Name s0 \<noteq> []
      \<and> s_Kind s = s_Kind s0 \<and> s_Name s = s_Name s0 \<and> s_Signature s = s_Signature s0
      \<and> s_Visibility s = getVisibility (s_Name s0) \<and> s_File s = m_File m"
  unfolding parseSymbolFromMatch_def Let_def
  by (auto simp: attachSource_keeps split: option.splits if_splits)

lemma parse_None:
  "(parseSymbolFromMatch lib m src inc n = None) =
   (case classify lib (capture_map (m_Captures m)) of None \<Rightarrow> True | Some s0 \<Rightarrow> s_Name s0 = [])"
  unfolding parseSymbolFromMatch_def Let_def
  by (auto split: option.splits if_splits)

lemmas ex_defs = example_const_with_type_def example_func_hello_def capture_at_def
  parseSymbolFromMatch_def classify_def capture_map_def takeName_def zeroSymbol_def
  getVisibility_def unicode_IsUpper_latin1_def buildFuncSignature_def Let_def

text \<open>
  C1. \<open>parseSymbolFromMatch\<close> decides the kind by the fixed precedence const, var,
  function, method, type over the capture names of the match: whenever a symbol is
  produced, its kind is that of the first of the five names that is present (for
  \<open>type\<close>, one of type, struct, interface), so a match with both a \<open>const\<close> and a
  \<open>type\<close> capture is a const, never a type. A match with none of the five names
  produces no symbol; a match with one of them produces a symbol exactly when its
  \<open>name\<close> capture has non-empty text.
\<close>

theorem parseSymbolFromMatch_precedence:
  "(parseSymbolFromMatch lib m src inc n = Some s \<longrightarrow>
      (''const'' \<in> c_Name ` set (m_Captures m) \<longrightarrow> s_Kind s = ''const'') \<and>
      (''const'' \<notin> c_Name ` set (m_Captures m) \<and> ''var'' \<in> c_Name ` set (m_Captures m)
         \<longrightarrow> s_Kind s = ''var'') \<and>
      (''const'' \<notin> c_Name ` set (m_Captures m) \<and> ''var'' \<notin> c_Name ` set (m_Captures m)
         \<and> ''function'' \<in> c_Name ` set (m_Captures m) \<longrightarrow> s_Kind s = ''function'') \<and>
      (''const'' \<notin> c_Name ` set (m_Captures m) \<and> ''var'' \<notin> c_Name ` set (m_Captures m)
         \<and> ''function'' \<notin> c_Name ` set (m_Captures m)
         \<and> ''method'' \<in> c_Name ` set (m_Captures m) \<longrightarrow> s_Kind s = ''method'') \<and>
      (''const'' \<notin> c_Name ` set (m_Captures m) \<and> ''var'' \<notin> c_Name ` set (m_Captures m)
         \<and> ''function'' \<notin> c_Name ` set (m_Captures m)
         \<and> ''method'' \<notin> c_Name ` set (m_Captures m)
         \<longrightarrow> ''type'' \<in> c_Name ` set (m_Captures m)
             \<and> (s_Kind s = ''type'' \<or> s_Kind s = ''struct'' \<or> s_Kind s = ''interface'')))
   \<and> (''const'' \<notin> c_Name ` set (m_Captures m) \<and> ''var'' \<notin> c_Name ` set (m_Captures m)
         \<and> ''function'' \<notin> c_Name ` set (m_Captures m)
         \<and> ''method'' \<notin> c_Name ` set (m_Captures m)
         \<and> ''type'' \<notin> c_Name ` set (m_Captures m)
       \<longrightarrow> parseSymbolFromMatch lib m src inc n = None)
   \<and> ((''const'' \<in> c_Name ` set (m_Captures m) \<or> ''var'' \<in> c_Name ` set (m_Captures m)
         \<or> ''function'' \<in> c_Name ` set (m_Captures m)
         \<or> ''method'' \<in> c_Name ` set (m_Captures m)
         \<or> ''type'' \<in> c_Name ` set (m_Captures m))
       \<longrightarrow> (parseSymbolFromMatch lib m src inc n \<noteq> None) =
             (case capture_map (m_Captures m) ''name'' of
                Some c \<Rightarrow> c_Text c \<noteq> [] | None \<Rightarrow> False))"
proof -
  let ?caps = "capture_map (m_Captures m)"
  have pres: "\<And>k. (?caps k \<noteq> None) = (k \<in> c_Name ` set (m_Captures m))"
    by (rule capture_map_present)
  have kinds: "parseSymbolFromMatch lib m src inc n = Some s \<Longrightarrow>
      s_Kind s =
        (if ?caps ''const'' \<noteq> None then ''const''
         else if ?caps ''var'' \<noteq> None then ''var''
         else if ?caps ''function'' \<noteq> None then ''function''
         else if ?caps ''method'' \<noteq> None then ''method''
         else (case ?caps ''type_def'' of
                 Some t \<Rightarrow> if strings_HasPrefix (c_NodeType t) ''struct'' then ''struct''
                           else if strings_HasPrefix (c_NodeType t) ''interface''
                           then ''interface'' else ''type''
               | None \<Rightarrow> ''type''))
      \<and> classify lib ?caps \<noteq> None"
    using parse_Some [of lib m src inc n s] classify_Kind [of lib ?caps] by auto
  have none: "(parseSymbolFromMatch lib m src inc n = None) =
      (classify lib ?caps = None \<or>
       (case ?caps ''name'' of Some c \<Rightarrow> c_Text c = [] | None \<Rightarrow> True))"
    using classify_Name [of lib ?caps]
    by (auto simp: parse_None split: option.splits)
  have part1: "parseSymbolFromMatch lib m src inc n = Some s \<longrightarrow>
      (''const'' \<in> c_Name ` set (m_Captures m) \<longrightarrow> s_Kind s = ''const'') \<and>
      (''const'' \<notin> c_Name ` set (m_Captures m) \<and> ''var'' \<in> c_Name ` set (m_Captures m)
         \<longrightarrow> s_Kind s = ''var'') \<and>
      (''const'' \<notin> c_Name ` set (m_Captures m) \<and> ''var'' \<notin> c_Name ` set (m_Captures m)
         \<and> ''function'' \<in> c_Name ` set (m_Captures m) \<longrightarrow> s_Kind s = ''function'') \<and>
      (''const'' \<notin> c_Name ` set (m_Captures m) \<and> ''var'' \<notin> c_Name ` set (m_Captures m)
         \<and> ''function'' \<notin> c_Name ` set (m_Captures m)
         \<and> ''method'' \<in> c_Name ` set (m_Captures m) \<longrightarrow> s_Kind s = ''method'') \<and>
      (''const'' \<notin> c_Name ` set (m_Captures m) \<and> ''var'' \<notin> c_Name ` set (m_Captures m)
         \<and> ''function'' \<notin> c_Name ` set (m_Captures m)
         \<and> ''method'' \<notin> c_Name ` set (m_Captures m)
         \<longrightarrow> ''type'' \<in> c_Name ` set (m_Captures m)
             \<and> (s_Kind s = ''type'' \<or> s_Kind s = ''struct'' \<or> s_Kind s = ''interface''))"
  proof
    assume a: "parseSymbolFromMatch lib m src inc n = Some s"
    note k = kinds [OF a]
    have ty: "?caps ''const'' = None \<Longrightarrow> ?caps ''var'' = None \<Longrightarrow> ?caps ''function'' = None
        \<Longrightarrow> ?caps ''method'' = None \<Longrightarrow> ?caps ''type'' \<noteq> None"
      using k by (simp add: classify_None)
    show "(''const'' \<in> c_Name ` set (m_Captures m) \<longrightarrow> s_Kind s = ''const'') \<and>
      (''const'' \<notin> c_Name ` set (m_Captures m) \<and> ''var'' \<in> c_Name ` set (m_Captures m)
         \<longrightarrow> s_Kind s = ''var'') \<and>
      (''const'' \<notin> c_Name ` set (m_Captures m) \<and> ''var'' \<notin> c_Name ` set (m_Captures m)
         \<and> ''function'' \<in> c_Name ` set (m_Captures m) \<longrightarrow> s_Kind s = ''function'') \<and>
      (''const'' \<notin> c_Name ` set (m_Captures m) \<and> ''var'' \<notin> c_Name ` set (m_Captures m)
         \<and> ''function'' \<notin> c_Name ` set (m_Captures m)
         \<and> ''method'' \<in> c_Name ` set (m_Captures m) \<longrightarrow> s_Kind s = ''method'') \<and>
      (''const'' \<notin> c_Name ` set (m_Captures m) \<and> ''var'' \<notin> c_Name ` set (m_Captures m)
         \<and> ''function'' \<notin> c_Name ` set (m_Captures m)
         \<and> ''method'' \<notin> c_Name ` set (m_Captures m)
         \<longrightarrow> ''type'' \<in> c_Name ` set (m_Captures m)
             \<and> (s_Kind s = ''type'' \<or> s_Kind s = ''struct'' \<or> s_Kind s = ''interface''))"
      using k ty unfolding pres [symmetric]
      by (simp split: option.splits if_splits)
  qed
  have part2: "''const'' \<notin> c_Name ` set (m_Captures m) \<and> ''var'' \<notin> c_Name ` set (m_Captures m)
         \<and> ''function'' \<notin> c_Name ` set (m_Captures m)
         \<and> ''method'' \<notin> c_Name ` set (m_Captures m)
         \<and> ''type'' \<notin> c_Name ` set (m_Captures m)
       \<longrightarrow> parseSymbolFromMatch lib m src inc n = None"
    unfolding pres [symmetric] none classify_None by simp
  have part3: "(''const'' \<in> c_Name ` set (m_Captures m) \<or> ''var'' \<in> c_Name ` set (m_Captures m)
         \<or> ''function'' \<in> c_Name ` set (m_Captures m)
         \<or> ''method'' \<in> c_Name ` set (m_Captures m)
         \<or> ''type'' \<in> c_Name ` set (m_Captures m))
       \<longrightarrow> (parseSymbolFromMatch lib m src inc n \<noteq> None) =
             (case capture_map (m_Captures m) ''name'' of
                Some c \<Rightarrow> c_Text c \<noteq> [] | None \<Rightarrow> False)"
    unfolding pres [symmetric] none classify_None by (auto split: option.splits)
  from part1 part2 part3 show ?thesis by blast
qed

theorem parseSymbolFromMatch_precedence_witness:
  "''const'' \<in> c_Name ` set (m_Captures example_const_with_type)
   \<and> ''type'' \<in> c_Name ` set (m_Captures example_const_with_type)
   \<and> map_option s_Kind (parseSymbolFromMatch ascii_lib example_const_with_type [] False 10)
       = Some ''const''"
proof -
  have ev: "parseSymbolFromMatch ascii_lib example_const_with_type [] False 10 \<noteq> None"
    by (simp add: ex_defs)
  then obtain s where s: "parseSymbolFromMatch ascii_lib example_const_with_type [] False 10 = Some s"
    by blast
  have mem: "''const'' \<in> c_Name ` set (m_Captures example_const_with_type)"
       "''type'' \<in> c_Name ` set (m_Captures example_const_with_type)"
    by (simp_all add: example_const_with_type_def capture_at_def)
  from parseSymbolFromMatch_precedence [of ascii_lib example_const_with_type "[]" False 10 s] s mem
  have "s_Kind s = ''const''" by blast
  with s mem show ?thesis by simp
qed

lemma extractSymbols_subset:
  "s \<in> set (extractSymbols lib ms src vis inc n) \<Longrightarrow>
   \<exists>m \<in> set ms. parseSymbolFromMatch lib m src inc n = Some s"
  by (induction ms) (auto split: option.splits if_splits)

lemma capture_map_Nil: "capture_map [] k = None"
  by (simp add: capture_map_def)

lemma parse_None_name:
  "(case capture_map (m_Captures m) ''name'' of Some c \<Rightarrow> c_Text c = [] | None \<Rightarrow> True)
   \<Longrightarrow> parseSymbolFromMatch lib m src inc n = None"
  using classify_Name [of lib "capture_map (m_Captures m)"]
  by (auto simp: parse_None split: option.splits)

text \<open>
  C8. Every symbol that \<open>extractSymbols\<close> returns has a non-empty name, for every
  visibility filter and every \<open>includeSource\<close> setting. A match with no captures, a match
  without a \<open>name\<close> capture, and a match whose \<open>name\<close> capture (the last one of that
  name, which is the one the capture map keeps) has empty text each produce no symbol.
\<close>

theorem extractSymbols_names_nonempty:
  "(\<forall>s \<in> set (extractSymbols lib ms src vis inc n). s_Name s \<noteq> [])
   \<and> (m_Captures m = [] \<longrightarrow>
        parseSymbolFromMatch lib m src inc n = None
        \<and> extractSymbols lib [m] src vis inc n = [])
   \<and> (''name'' \<notin> c_Name ` set (m_Captures m) \<longrightarrow>
        parseSymbolFromMatch lib m src inc n = None
        \<and> extractSymbols lib [m] src vis inc n = [])
   \<and> ((\<exists>c. capture_map (m_Captures m) ''name'' = Some c \<and> c_Text c = []) \<longrightarrow>
        parseSymbolFromMatch lib m src inc n = None
        \<and> extractSymbols lib [m] src vis inc n = [])"
proof -
  have names: "\<forall>s \<in> set (extractSymbols lib ms src vis inc n). s_Name s \<noteq> []"
  proof
    fix s assume "s \<in> set (extractSymbols lib ms src vis inc n)"
    then obtain m' where "parseSymbolFromMatch lib m' src inc n = Some s"
      using extractSymbols_subset by blast
    then show "s_Name s \<noteq> []"
      using parse_Some [of lib m' src inc n s] by auto
  qed
  have single: "parseSymbolFromMatch lib m src inc n = None \<Longrightarrow>
      extractSymbols lib [m] src vis inc n = []"
    by simp
  have empty: "m_Captures m = [] \<longrightarrow> parseSymbolFromMatch lib m src inc n = None"
    using parse_None_name [of m lib src inc n] by (simp add: capture_map_Nil)
  have noname: "''name'' \<notin> c_Name ` set (m_Captures m) \<longrightarrow>
      parseSymbolFromMatch lib m src inc n = None"
    using parse_None_name [of m lib src inc n] capture_map_present [of "m_Captures m" "''name''"]
    by (auto split: option.splits)
  have emptyname: "(\<exists>c. capture_map (m_Captures m) ''name'' = Some c \<and> c_Text c = []) \<longrightarrow>
      parseSymbolFromMatch lib m src inc n = None"
    using parse_None_name [of m lib src inc n] by auto
  from names single empty noname emptyname show ?thesis by auto
qed

theorem extractSymbols_names_nonempty_witness:
  "''name'' \<notin> c_Name ` set (m_Captures example_unnamed_function)
   \<and> extractSymbols ascii_lib [example_unnamed_function] [] ''all'' True 10 = []
   \<and> map s_Name (extractSymbols ascii_lib [example_func_hello, example_unnamed_function,
         example_const_with_type] [] ''all'' True 10) = [''Hello'', ''x'']
   \<and> list_all (\<lambda>s. s_Name s \<noteq> []) (extractSymbols ascii_lib [example_func_hello, example_unnamed_function,
         example_const_with_type] [] ''all'' True 10)"
proof -
  have a: "''name'' \<notin> c_Name ` set (m_Captures example_unnamed_function)"
    by (simp add: example_unnamed_function_def capture_at_def)
  have b: "map s_Name (extractSymbols ascii_lib [example_func_hello, example_unnamed_function,
         example_const_with_type] [] ''all'' True 10) = [''Hello'', ''x'']"
    by (simp add: ex_defs example_unnamed_function_def visibilityKeeps_def isOuterCapture_def)
  show ?thesis
    using a b
      extractSymbols_names_nonempty [of ascii_lib "[example_func_hello, example_unnamed_function,
         example_const_with_type]" "[]" "''all''" True 10 example_unnamed_function]
    by (simp add: list_all_iff)
qed


section \<open>Signatures\<close>

lemma buildFuncSignature_parts:
  "buildFuncSignature caps =
     ''func'' @ sigPart caps '' '' ''receiver'' @ sigPart caps '' '' ''name''
       @ sigPart caps [] ''params'' @ sigPart caps '' '' ''result''"
  by (simp add: buildFuncSignature_def sigPart_def Let_def split: option.splits)

lemma classify_Signature:
  "classify lib caps = Some s \<Longrightarrow> s_Kind s = ''function'' \<or> s_Kind s = ''method'' \<Longrightarrow>
   s_Signature s = buildFuncSignature caps"
  unfolding classify_def Let_def
  by (auto simp: takeName_Kind takeName_def zeroSymbol_def split: option.splits if_splits)

text \<open>
  C7, as amended. For a match classified as function or method, the signature is the
  keyword \<open>func\<close>, then the receiver text preceded by a space, the name text preceded by
  a space, the parameter-list text appended directly with no space before it, and the
  result text preceded by a space; an absent capture contributes nothing.
\<close>

theorem signature_parts:
  "parseSymbolFromMatch lib m src inc n = Some s \<Longrightarrow>
   s_Kind s = ''function'' \<or> s_Kind s = ''method'' \<Longrightarrow>
   s_Signature s =
     ''func'' @ sigPart (capture_map (m_Captures m)) '' '' ''receiver''
       @ sigPart (capture_map (m_Captures m)) '' '' ''name''
       @ sigPart (capture_map (m_Captures m)) [] ''params''
       @ sigPart (capture_map (m_Captures m)) '' '' ''result''"
  using parse_Some [of lib m src inc n s] classify_Signature [of lib "capture_map (m_Captures m)"]
  by (auto simp: buildFuncSignature_parts)

theorem signature_parts_witness:
  "map_option s_Kind (parseSymbolFromMatch ascii_lib example_method [] False 10) = Some ''method''
   \<and> map_option s_Signature (parseSymbolFromMatch ascii_lib example_method [] False 10)
       = Some ''func (r *T) Get(k string) int''"
proof -
  have k: "map_option s_Kind (parseSymbolFromMatch ascii_lib example_method [] False 10) = Some ''method''"
    by (simp add: ex_defs example_method_def)
  then obtain s where s: "parseSymbolFromMatch ascii_lib example_method [] False 10 = Some s"
    and kind: "s_Kind s = ''method''" by auto
  have "s_Signature s = ''func (r *T) Get(k string) int''"
    using signature_parts [OF s] kind
    by (simp add: sigPart_def capture_map_def example_method_def capture_at_def)
  with s k show ?thesis by simp
qed

text \<open>
  C7 as stated fails: joining the parts with single spaces puts a space between the name
  and the parameter list, and the code writes none.
\<close>

theorem signature_no_space_before_params:
  "map_option s_Kind (parseSymbolFromMatch ascii_lib example_func_hello [] False 10) = Some ''function''
   \<and> map_option s_Signature (parseSymbolFromMatch ascii_lib example_func_hello [] False 10)
       = Some ''func Hello()''
   \<and> signature_as_specified (capture_map (m_Captures example_func_hello)) = ''func Hello ()''
   \<and> map_option s_Signature (parseSymbolFromMatch ascii_lib example_func_hello [] False 10)
       \<noteq> Some (signature_as_specified (capture_map (m_Captures example_func_hello)))"
  by (simp add: ex_defs signature_as_specified_def List.map_filter_def)


section \<open>Visibility\<close>

text \<open>For a name whose first byte is ASCII, the visibility is public exactly when that
  byte is one of \<open>A\<close>-\<open>Z\<close>.\<close>

lemma getVisibility_ascii:
  "(of_char b :: nat) < 0x80 \<Longrightarrow>
   (getVisibility (b # name) = ''public'') = (0x41 \<le> (of_char b :: nat) \<and> (of_char b :: nat) \<le> 0x5A)"
  by (auto simp add: getVisibility_def unicode_IsUpper_latin1_def)

text \<open>
  C4. The visibility is public exactly when the first character of the name is an
  upper-case letter, for ASCII and non-ASCII letters alike. The code does not do this:
  a name whose first character is U+00E9 (e with acute accent, a lower-case letter,
  encoded in UTF-8 as the bytes C3 A9) is public, because \<open>getVisibility\<close> converts the
  first byte alone to a rune and U+00C3 is an upper-case letter.
\<close>

theorem getVisibility_reads_first_byte:
  "getVisibility [CHR 0xC3, CHR 0xA9, CHR ''l'', CHR ''a'', CHR ''n''] = ''public''
   \<and> utf8_first [CHR 0xC3, CHR 0xA9, CHR ''l'', CHR ''a'', CHR ''n''] = Some 0xE9
   \<and> \<not> unicode_IsUpper_latin1 0xE9"
  by (simp add: getVisibility_def utf8_first_def unicode_IsUpper_latin1_def)


section \<open>References\<close>

lemma sint_pred_in_range:
  fixes w :: "64 word"
  assumes "sint w \<noteq> - (2 ^ 63)"
  shows "sint (w - 1) = sint w - 1"
proof -
  have lo: "- (2 ^ 63) \<le> sint w" using sint_ge [of w] by simp
  have hi: "sint w < 2 ^ 63" using sint_lt [of w] by simp
  have "sint (w - 1) = signed_take_bit 63 (sint w - 1)"
    by (simp add: sint_word_ariths)
  also have "\<dots> = sint w - 1"
    using lo hi assms by (intro signed_take_bit_int_eq_self) auto
  finally show ?thesis .
qed

lemma sint_pred_min:
  fixes w :: "64 word"
  assumes "sint w = - (2 ^ 63)"
  shows "sint (w - 1) = 2 ^ 63 - 1"
proof -
  have "sint (w - 1) = signed_take_bit 63 (sint w - 1)"
    by (simp add: sint_word_ariths)
  also have "\<dots> = signed_take_bit 63 (- (2 ^ 63) - 1 :: int)" using assms by simp
  also have "\<dots> = 2 ^ 63 - 1" by (simp add: signed_take_bit_eq_take_bit_shift take_bit_eq_mod)
  finally show ?thesis .
qed

lemma makeReference_total:
  "makeReference lib lines S ctx m c = Inr (referenceFor lib lines S ctx (m, c))"
  by (simp add: makeReference_def referenceFor_def index_line_def Let_def)

lemma refsOfCaptures_eq:
  "refsOfCaptures lib lines S ctx m cs refs =
     Inr (refs @ map (\<lambda>c. referenceFor lib lines S ctx (m, c)) (filter (\<lambda>c. c_Text c = S) cs))"
  by (induction cs arbitrary: refs) (simp_all add: makeReference_total)

lemma refsOfMatches_eq:
  "refsOfMatches lib lines S ctx ms refs =
     Inr (refs @ map (referenceFor lib lines S ctx) (matchingCaptures ms S))"
  by (induction ms arbitrary: refs)
     (simp_all add: refsOfCaptures_eq matchingCaptures_def comp_def)

lemma findReferences_eq:
  "findReferences lib ms src S ctx =
     Inr (map (referenceFor lib (strings_Split_nl src) S ctx) (matchingCaptures ms S))"
  by (simp add: findReferences_def refsOfMatches_eq)

text \<open>
  C5. \<open>findReferences\<close> with search term \<open>S\<close> returns, without a panic, one reference
  for each capture whose text equals \<open>S\<close> and none for any other capture, in visiting
  order. Every reference has \<open>S\<close> as its symbol, the file of its match and the start
  position of its capture; its kind is call for the capture name call, type_ref for
  type_ref and composite_type, field_access for field, identifier for ident and short_var,
  and reference for every other capture name.
\<close>

theorem findReferences_classification:
  "\<exists>refs. findReferences lib ms src S ctx = Inr refs
     \<and> map r_Symbol refs = map (\<lambda>_. S) (matchingCaptures ms S)
     \<and> map r_File refs = map (\<lambda>mc. m_File (fst mc)) (matchingCaptures ms S)
     \<and> map r_Position refs = map (\<lambda>mc. Start (c_Range (snd mc))) (matchingCaptures ms S)
     \<and> map r_Kind refs =
         map (\<lambda>mc. if c_Name (snd mc) = ''call'' then ''call''
                   else if c_Name (snd mc) = ''type_ref'' \<or> c_Name (snd mc) = ''composite_type''
                   then ''type_ref''
                   else if c_Name (snd mc) = ''field'' then ''field_access''
                   else if c_Name (snd mc) = ''ident'' \<or> c_Name (snd mc) = ''short_var''
                   then ''identifier''
                   else ''reference'')
             (matchingCaptures ms S)"
  by (simp add: findReferences_eq referenceFor_def refKind_def comp_def)

lemmas refs_ex_defs = example_refs_matches_def example_refs_source_def capture_at_def
  matchingCaptures_def

theorem findReferences_classification_witness:
  "map_sum id (map r_Kind) (findReferences ascii_lib example_refs_matches example_refs_source ''Foo'' False)
     = Inr [''call'', ''type_ref'', ''reference'', ''field_access'']
   \<and> map_sum id (map r_Symbol) (findReferences ascii_lib example_refs_matches example_refs_source ''Foo'' False)
     = Inr [''Foo'', ''Foo'', ''Foo'', ''Foo'']"
  using findReferences_classification [of ascii_lib example_refs_matches example_refs_source "''Foo''" False]
  by (auto simp add: refs_ex_defs)

text \<open>
  C10. With the include-context flag set, every capture whose text is the search term
  gives a reference, and no line is read outside the slice (the result is never a
  panic). For start line \<open>L\<close>, the context is empty when \<open>L - 1 < 0\<close> or \<open>L - 1\<close> is at
  least the number of source lines, and is the trimmed text of source line \<open>L\<close>
  otherwise. The number of lines of a Go slice is below \<open>2 ^ 63\<close>.
\<close>

theorem findReferences_context_guarded:
  assumes "length (strings_Split_nl src) < 2 ^ 63"
  shows "\<exists>refs. findReferences lib ms src S True = Inr refs
     \<and> length refs = length (matchingCaptures ms S)
     \<and> map r_Context refs =
         map (\<lambda>mc. if sint (Line (Start (c_Range (snd mc)))) - 1 < 0
                      \<or> sint (Line (Start (c_Range (snd mc)))) - 1
                           \<ge> int (length (strings_Split_nl src))
                   then []
                   else strings_TrimSpace lib
                          (strings_Split_nl src ! nat (sint (Line (Start (c_Range (snd mc)))) - 1)))
             (matchingCaptures ms S)"
proof -
  let ?lines = "strings_Split_nl src"
  have ctx: "r_Context (referenceFor lib ?lines S True mc) =
      (if sint (Line (Start (c_Range (snd mc)))) - 1 < 0
          \<or> sint (Line (Start (c_Range (snd mc)))) - 1 \<ge> int (length ?lines)
       then []
       else strings_TrimSpace lib (?lines ! nat (sint (Line (Start (c_Range (snd mc)))) - 1)))"
    for mc
  proof (cases "sint (Line (Start (c_Range (snd mc)))) = - (2 ^ 63)")
    case True
    have "int (length ?lines) \<le> 2 ^ 63 - 1" using assms by simp
    then show ?thesis
      using True sint_pred_min [OF True] by (simp add: referenceFor_def)
  next
    case False
    then show ?thesis
      using sint_pred_in_range [OF False] by (auto simp add: referenceFor_def)
  qed
  show ?thesis
    by (simp add: findReferences_eq comp_def ctx)
qed

theorem findReferences_context_guarded_witness:
  "length (strings_Split_nl example_refs_source) < 2 ^ 63
   \<and> map_sum id (map r_Context)
       (findReferences ascii_lib example_refs_matches example_refs_source ''Foo'' True)
     = Inr [''x := Foo(1)'', ''var y Foo'', [], []]"
proof -
  have len: "length (strings_Split_nl example_refs_source) < 2 ^ 63"
    by (simp add: example_refs_source_def strings_Split_nl_def)
  show ?thesis
    using len findReferences_context_guarded [OF len, of ascii_lib example_refs_matches "''Foo''"]
    by (auto simp add: refs_ex_defs strings_Split_nl_def ascii_lib_def asciiSpace_def)
qed


section \<open>Properties of the worker pools and the aggregators\<close>

lemma pool_run_no_workers: "pool_run work sched queue [] log out = (log, out)"
  by (induction sched arbitrary: queue log out) simp_all

lemma concat_update_mset:
  "i < length ws \<Longrightarrow> mset (concat (ws[i := v])) + mset (ws ! i) = mset (concat ws) + mset v"
proof -
  assume i: "i < length ws"
  have a: "ws[i := v] = take i ws @ v # drop (Suc i) ws"
    using i by (rule upd_conv_take_nth_drop)
  have b: "ws = take i ws @ ws ! i # drop (Suc i) ws"
    using i by (rule id_take_nth_drop)
  have "mset (concat ws) = mset (concat (take i ws)) + mset (ws ! i) + mset (concat (drop (Suc i) ws))"
    by (subst b) simp
  moreover have "mset (concat (ws[i := v])) = mset (concat (take i ws)) + mset v + mset (concat (drop (Suc i) ws))"
    by (subst a) simp
  ultimately show ?thesis by simp
qed

lemma pool_run_mset:
  "ws \<noteq> [] \<Longrightarrow>
   mset (snd (pool_run work sched queue ws log out)) =
     mset out + mset (concat ws) + mset (concat (map work queue))"
proof (induction sched arbitrary: queue ws log out)
  case Nil
  then show ?case by simp
next
  case (Cons i sched)
  show ?case
  proof (cases "i < length ws")
    case False
    then show ?thesis using Cons by simp
  next
    case True
    show ?thesis
    proof (cases "ws ! i")
      case (Cons x xs)
      have ne: "ws[i := xs] \<noteq> []" using True by auto
      have "mset (concat (ws[i := xs])) + mset (ws ! i) = mset (concat ws) + mset xs"
        using True by (rule concat_update_mset)
      then have "mset (concat (ws[i := xs])) + {#x#} = mset (concat ws)"
        using Cons by simp
      then show ?thesis
        using True Cons Cons.IH [OF ne] by (simp add: add.commute add.left_commute)
    next
      case Nil
      show ?thesis
      proof (cases queue)
        case Nil
        then show ?thesis using True \<open>ws ! i = []\<close> Cons by simp
      next
        case (Cons job rest)
        have ne: "ws[i := work job] \<noteq> []" using True by auto
        have "mset (concat (ws[i := work job])) + mset (ws ! i) = mset (concat ws) + mset (work job)"
          using True by (rule concat_update_mset)
        then have "mset (concat (ws[i := work job])) = mset (concat ws) + mset (work job)"
          using \<open>ws ! i = []\<close> by simp
        then show ?thesis
          using True \<open>ws ! i = []\<close> Cons Cons.IH [OF ne] by simp
      qed
    qed
  qed
qed

lemma pool_run_spawned:
  "spawned (fst (pool_run work sched queue ws log out)) = spawned log"
  by (induction sched arbitrary: queue ws log out)
     (auto simp: spawned_def split: list.splits)

lemma pool_run_parsed:
  "ws \<noteq> [] \<Longrightarrow>
   mset (fst (pool_run work sched queue ws log out)) =
     mset log + mset (map (\<lambda>job. EvParseFile (AbsPath job)) queue)"
  by (induction sched arbitrary: queue ws log out)
     (auto split: list.splits)

text \<open>With one worker the pool is sequential: whatever the schedule, the files are
  parsed in file order and the result is the items of the files in that order. This is
  the \<open>Jobs: 1\<close> setting that the test harness uses for a deterministic order.\<close>

lemma pool_run_single_worker:
  "pool_run work sched queue [w] log out =
     (log @ map (\<lambda>job. EvParseFile (AbsPath job)) queue, out @ w @ concat (map work queue))"
proof (induction sched arbitrary: queue w log out)
  case Nil
  show ?case by simp
next
  case (Cons i sched)
  show ?case
  proof (cases i)
    case 0
    show ?thesis
    proof (cases w)
      case Nil
      then show ?thesis using 0 Cons by (cases queue) simp_all
    next
      case (Cons x xs)
      then show ?thesis using 0 Cons.IH by simp
    qed
  next
    case (Suc n)
    then show ?thesis using Cons by simp
  qed
qed

lemma runQueryWorkers_sequential:
  "files \<noteq> [] \<Longrightarrow>
   runQueryWorkers eng sched language query files 1 =
     (EvSpawnWorker # map (\<lambda>job. EvParseFile (AbsPath job)) files,
      concat (map (queryWorker eng language query) files))"
proof -
  assume ne: "files \<noteq> []"
  then have k: "clampWorkers 1 files = 1"
    by (cases files) (simp_all add: clampWorkers_def Let_def)
  show ?thesis
    by (simp add: runQueryWorkers_def spawnPool_def k pool_run_single_worker)
qed

lemma clampWorkers_range:
  "files \<noteq> [] \<Longrightarrow> 1 \<le> clampWorkers jobs files \<and> clampWorkers jobs files \<le> int (length files)"
  by (cases files) (auto simp: clampWorkers_def Let_def)

lemma clampWorkers_empty: "clampWorkers jobs [] = 0"
  by (simp add: clampWorkers_def Let_def)

lemma spawnPool_spawned:
  "spawned (fst (spawnPool work sched files k)) = nat k"
proof -
  obtain log out where p: "pool_run work sched files (replicate (nat k) []) [] [] = (log, out)"
    by (cases "pool_run work sched files (replicate (nat k) []) [] []")
  have "spawned log = spawned []"
    using pool_run_spawned [of work sched files "replicate (nat k) []" "[]" "[]"] p by simp
  then show ?thesis
    by (simp add: spawnPool_def p spawned_def)
qed

lemma spawnPool_mset:
  "1 \<le> k \<Longrightarrow> mset (snd (spawnPool work sched files k)) = mset (concat (map work files))"
proof -
  assume k: "1 \<le> k"
  then have ne: "replicate (nat k) ([]::'a list) \<noteq> []" by auto
  have c': "concat (replicate n ([]::'a list)) = []" for n by (induction n) auto
  show ?thesis
    using pool_run_mset [OF ne, of work sched files "[]" "[]"]
    by (auto simp add: spawnPool_def c' split: prod.splits)
qed


lemma Query_eq:
  "Query eng sched opts =
     (if qo_Query opts = [] then ([], Inl (Error ''query is required''))
      else
        (case Get eng (orDefault [] ''go'' (qo_Language opts)) of
              None \<Rightarrow> ([], Inl (Error (orDefault [] ''go'' (qo_Language opts)
                                         @ '' language not registered'')))
            | Some language \<Rightarrow>
                (case newQuery eng (qo_Query opts) language of
                   Inl err \<Rightarrow> ([], Inl err)
                 | Inr query \<Rightarrow>
                     (case resolveFiles eng language (qo_File opts)
                             (orDefault [] ''.'' (qo_Path opts))
                             (orDefault 0 (2 * 1024 * 1024) (qo_MaxBytes opts)) of
                        (evs, Inl err) \<Rightarrow> (evs, Inl err)
                      | (evs, Inr files) \<Rightarrow>
                          if length files = 0 then (evs, Inr [])
                          else
                            (case runQueryWorkers eng sched language query files
                                    (orDefault 0 (runtime_NumCPU eng) (qo_Jobs opts)) of
                               (log, matches) \<Rightarrow> (evs @ log, Inr matches))))))"
  unfolding Query_def Let_def orDefault_def by (rule refl)

lemma Symbols_eq:
  "Symbols eng sched opts =
     (case Get eng (orDefault [] ''go'' (so_Language opts)) of
           None \<Rightarrow> ([], Inl (Error (orDefault [] ''go'' (so_Language opts)
                                      @ '' language not registered'')))
         | Some language \<Rightarrow>
             (case newQuery eng (l_SymbolsQuery language) language of
                Inl err \<Rightarrow> ([], Inl err)
              | Inr query \<Rightarrow>
                  (case resolveFiles eng language (so_File opts)
                          (orDefault [] ''.'' (so_Path opts))
                          (orDefault 0 (2 * 1024 * 1024) (so_MaxBytes opts)) of
                     (evs, Inl err) \<Rightarrow> (evs, Inl err)
                   | (evs, Inr files) \<Rightarrow>
                       if length files = 0 then (evs, Inr [])
                       else
                         (case runSymbolsWorkers eng sched language query files
                                 (orDefault 0 (runtime_NumCPU eng) (so_Jobs opts))
                                 (orDefault [] ''all'' (so_Visibility opts))
                                 (so_IncludeSource opts)
                                 (orDefault 0 10 (so_MaxSourceLines opts)) of
                            (log, results) \<Rightarrow> (evs @ log, Inr results)))))"
  unfolding Symbols_def Let_def orDefault_def by (rule refl)

lemma Refs_eq:
  "Refs eng sched opts =
     (if ro_Symbol opts = [] then ([], Inr (Inl (Error ''symbol is required'')))
      else
        (case Get eng (orDefault [] ''go'' (ro_Language opts)) of
              None \<Rightarrow> ([], Inr (Inl (Error (orDefault [] ''go'' (ro_Language opts)
                                               @ '' language not registered''))))
            | Some language \<Rightarrow>
                (case newQuery eng (l_RefsQuery language) language of
                   Inl err \<Rightarrow> ([], Inr (Inl err))
                 | Inr query \<Rightarrow>
                     (case resolveFiles eng language (ro_File opts)
                             (orDefault [] ''.'' (ro_Path opts))
                             (orDefault 0 (2 * 1024 * 1024) (ro_MaxBytes opts)) of
                        (evs, Inl err) \<Rightarrow> (evs, Inr (Inl err))
                      | (evs, Inr files) \<Rightarrow>
                          if length files = 0
                          then (evs, Inr (Inr \<lparr>rr_Symbol = ro_Symbol opts, rr_References = []\<rparr>))
                          else
                            (case runRefsWorkers eng sched language query files
                                    (orDefault 0 (runtime_NumCPU eng) (ro_Jobs opts))
                                    (ro_Symbol opts) (ro_IncludeContext opts) of
                               (log, Inl p) \<Rightarrow> (evs @ log, Inl p)
                             | (log, Inr refs) \<Rightarrow>
                                 (evs @ log,
                                  Inr (Inr \<lparr>rr_Symbol = ro_Symbol opts,
                                            rr_References = refs\<rparr>)))))))"
  unfolding Refs_def Let_def orDefault_def by (rule refl)

lemma Outline_unregistered:
  "Get eng (orDefault [] ''go'' (oo_Language opts)) = None \<Longrightarrow>
   Outline eng opts =
     ([], Inl (Error (if oo_File opts = [] then ''file is required''
                      else orDefault [] ''go'' (oo_Language opts)
                           @ '' language not registered'')))"
  unfolding Outline_def Let_def orDefault_def by simp

lemma Query_unregistered:
  "Get eng (orDefault [] ''go'' (qo_Language opts)) = None \<Longrightarrow>
   Query eng sched opts =
     ([], Inl (Error (if qo_Query opts = [] then ''query is required''
                      else orDefault [] ''go'' (qo_Language opts)
                           @ '' language not registered'')))"
  by (simp add: Query_eq)

lemma Symbols_unregistered:
  "Get eng (orDefault [] ''go'' (so_Language opts)) = None \<Longrightarrow>
   Symbols eng sched opts =
     ([], Inl (Error (orDefault [] ''go'' (so_Language opts) @ '' language not registered'')))"
  by (simp add: Symbols_eq)

lemma Refs_unregistered:
  "Get eng (orDefault [] ''go'' (ro_Language opts)) = None \<Longrightarrow>
   Refs eng sched opts =
     ([], Inr (Inl (Error (if ro_Symbol opts = [] then ''symbol is required''
                      else orDefault [] ''go'' (ro_Language opts)
                           @ '' language not registered''))))"
  by (simp add: Refs_eq)

lemma Query_dispatch:
  assumes "qo_Query opts \<noteq> []"
    and "Get eng (orDefault [] ''go'' (qo_Language opts)) = Some language"
    and "newQuery eng (qo_Query opts) language = Inr query"
    and "resolveFiles eng language (qo_File opts) (orDefault [] ''.'' (qo_Path opts))
           (orDefault 0 2097152 (qo_MaxBytes opts)) = (evs, Inr files)"
  shows "Query eng sched opts =
     (if files = [] then (evs, Inr [])
      else (evs @ fst (runQueryWorkers eng sched language query files
                        (orDefault 0 (runtime_NumCPU eng) (qo_Jobs opts))),
            Inr (snd (runQueryWorkers eng sched language query files
                        (orDefault 0 (runtime_NumCPU eng) (qo_Jobs opts))))))"
  using assms by (simp add: Query_eq split_def)

lemma Symbols_dispatch:
  assumes "Get eng (orDefault [] ''go'' (so_Language opts)) = Some language"
    and "newQuery eng (l_SymbolsQuery language) language = Inr query"
    and "resolveFiles eng language (so_File opts) (orDefault [] ''.'' (so_Path opts))
           (orDefault 0 2097152 (so_MaxBytes opts)) = (evs, Inr files)"
  shows "Symbols eng sched opts =
     (if files = [] then (evs, Inr [])
      else (evs @ fst (runSymbolsWorkers eng sched language query files
                        (orDefault 0 (runtime_NumCPU eng) (so_Jobs opts))
                        (orDefault [] ''all'' (so_Visibility opts)) (so_IncludeSource opts)
                        (orDefault 0 10 (so_MaxSourceLines opts))),
            Inr (snd (runSymbolsWorkers eng sched language query files
                        (orDefault 0 (runtime_NumCPU eng) (so_Jobs opts))
                        (orDefault [] ''all'' (so_Visibility opts)) (so_IncludeSource opts)
                        (orDefault 0 10 (so_MaxSourceLines opts))))))"
  using assms by (simp add: Symbols_eq split_def)

lemma Refs_dispatch:
  assumes "ro_Symbol opts \<noteq> []"
    and "Get eng (orDefault [] ''go'' (ro_Language opts)) = Some language"
    and "newQuery eng (l_RefsQuery language) language = Inr query"
    and "resolveFiles eng language (ro_File opts) (orDefault [] ''.'' (ro_Path opts))
           (orDefault 0 2097152 (ro_MaxBytes opts)) = (evs, Inr files)"
  shows "Refs eng sched opts =
     (if files = [] then (evs, Inr (Inr \<lparr>rr_Symbol = ro_Symbol opts, rr_References = []\<rparr>))
      else (evs @ fst (runRefsWorkers eng sched language query files
                        (orDefault 0 (runtime_NumCPU eng) (ro_Jobs opts))
                        (ro_Symbol opts) (ro_IncludeContext opts)),
            (case snd (runRefsWorkers eng sched language query files
                        (orDefault 0 (runtime_NumCPU eng) (ro_Jobs opts))
                        (ro_Symbol opts) (ro_IncludeContext opts)) of
               Inl p \<Rightarrow> Inl p
             | Inr refs \<Rightarrow> Inr (Inr \<lparr>rr_Symbol = ro_Symbol opts, rr_References = refs\<rparr>))))"
  using assms by (simp add: Refs_eq split_def split: sum.splits)

text \<open>
  C6. \<open>Query\<close> with an empty query string and \<open>Refs\<close> with an empty symbol return their
  error with no event before it: no file was named, walked, read or parsed, and there is
  no result. The same holds for \<open>Query\<close>, \<open>Symbols\<close>, \<open>Outline\<close> and \<open>Refs\<close> when the
  language name, after an empty name has been replaced by \<open>go\<close>, is absent from the
  registry.
\<close>

theorem configuration_errors_first:
  "(qo_Query qopts = [] \<longrightarrow>
      Query eng sched qopts = ([], Inl (Error ''query is required'')))
   \<and> (ro_Symbol ropts = [] \<longrightarrow>
      Refs eng sched ropts = ([], Inr (Inl (Error ''symbol is required''))))
   \<and> (registry eng (orDefault [] ''go'' (qo_Language qopts)) = None \<longrightarrow>
      Query eng sched qopts =
        ([], Inl (Error (if qo_Query qopts = [] then ''query is required''
                         else orDefault [] ''go'' (qo_Language qopts)
                              @ '' language not registered''))))
   \<and> (registry eng (orDefault [] ''go'' (so_Language sopts)) = None \<longrightarrow>
      Symbols eng sched sopts =
        ([], Inl (Error (orDefault [] ''go'' (so_Language sopts)
                         @ '' language not registered''))))
   \<and> (registry eng (orDefault [] ''go'' (oo_Language oopts)) = None \<longrightarrow>
      Outline eng oopts =
        ([], Inl (Error (if oo_File oopts = [] then ''file is required''
                         else orDefault [] ''go'' (oo_Language oopts)
                              @ '' language not registered''))))
   \<and> (registry eng (orDefault [] ''go'' (ro_Language ropts)) = None \<longrightarrow>
      Refs eng sched ropts =
        ([], Inr (Inl (Error (if ro_Symbol ropts = [] then ''symbol is required''
                              else orDefault [] ''go'' (ro_Language ropts)
                                   @ '' language not registered'')))))"
proof -
  have q1: "qo_Query qopts = [] \<longrightarrow>
      Query eng sched qopts = ([], Inl (Error ''query is required''))"
    by (simp add: Query_eq)
  have r1: "ro_Symbol ropts = [] \<longrightarrow>
      Refs eng sched ropts = ([], Inr (Inl (Error ''symbol is required'')))"
    by (simp add: Refs_eq)
  show ?thesis
    using q1 r1 Query_unregistered [of eng qopts sched] Symbols_unregistered [of eng sopts sched]
      Outline_unregistered [of eng oopts] Refs_unregistered [of eng ropts sched]
    by (simp only: Get_def) simp
qed

theorem configuration_errors_first_witness:
  "registry example_engine (orDefault [] ''go'' (oo_Language example_outline_options)) = None
   \<and> Outline example_engine example_outline_options
       = ([], Inl (Error ''rust language not registered''))
   \<and> qo_Query (example_query_options\<lparr>qo_Query := []\<rparr>) = []
   \<and> Query example_engine [] (example_query_options\<lparr>qo_Query := []\<rparr>)
       = ([], Inl (Error ''query is required''))"
  using configuration_errors_first [of "example_query_options\<lparr>qo_Query := []\<rparr>"
     example_engine "[]" example_refs_options example_symbols_options example_outline_options]
  by (simp add: example_engine_def example_outline_options_def example_query_options_def
        orDefault_def)

lemma resolveFiles_spawned: "resolveFiles eng language file path mb = (evs, r) \<Longrightarrow> spawned evs = 0"
  by (auto simp: resolveFiles_def spawned_def Let_def split: if_splits sum.splits)

lemma spawned_append: "spawned (xs @ ys) = spawned xs + spawned ys"
  by (simp add: spawned_def)

lemma workers_spawned:
  "files \<noteq> [] \<Longrightarrow>
   spawned (fst (spawnPool work sched files (clampWorkers jobs files)))
     = nat (max 1 (min jobs (int (length files))))
   \<and> 1 \<le> spawned (fst (spawnPool work sched files (clampWorkers jobs files)))
   \<and> spawned (fst (spawnPool work sched files (clampWorkers jobs files))) \<le> length files"
  using clampWorkers_range [of files jobs]
  by (auto simp: spawnPool_spawned clampWorkers_def Let_def)

text \<open>
  C2. For every requested worker count \<open>jobs\<close>, zero and negative values included, and
  every non-empty file set, the number of workers that \<open>runQueryWorkers\<close>,
  \<open>runSymbolsWorkers\<close> and \<open>runRefsWorkers\<close> start is \<open>max 1 (min jobs (length files))\<close>,
  which lies between 1 and the number of files. When the file set is empty, \<open>Query\<close>,
  \<open>Symbols\<close> and \<open>Refs\<close> return an empty result that is not an error, and the events of
  the call hold no started worker.
\<close>

theorem worker_count_clamped:
  "(files \<noteq> [] \<longrightarrow>
      1 \<le> spawned (fst (runQueryWorkers eng sched language query files jobs))
      \<and> spawned (fst (runQueryWorkers eng sched language query files jobs)) \<le> length files
      \<and> spawned (fst (runQueryWorkers eng sched language query files jobs))
          = nat (max 1 (min jobs (int (length files))))
      \<and> 1 \<le> spawned (fst (runSymbolsWorkers eng sched language query files jobs
                              visibility includeSource maxSourceLines))
      \<and> spawned (fst (runSymbolsWorkers eng sched language query files jobs
                          visibility includeSource maxSourceLines)) \<le> length files
      \<and> spawned (fst (runSymbolsWorkers eng sched language query files jobs
                          visibility includeSource maxSourceLines))
          = nat (max 1 (min jobs (int (length files))))
      \<and> 1 \<le> spawned (fst (runRefsWorkers eng sched language query files jobs
                              symbolName includeContext))
      \<and> spawned (fst (runRefsWorkers eng sched language query files jobs
                          symbolName includeContext)) \<le> length files
      \<and> spawned (fst (runRefsWorkers eng sched language query files jobs
                          symbolName includeContext))
          = nat (max 1 (min jobs (int (length files)))))
   \<and> (qo_Query qopts \<noteq> []
        \<and> Get eng (orDefault [] ''go'' (qo_Language qopts)) = Some qlang
        \<and> newQuery eng (qo_Query qopts) qlang = Inr qquery
        \<and> resolveFiles eng qlang (qo_File qopts) (orDefault [] ''.'' (qo_Path qopts))
             (orDefault 0 2097152 (qo_MaxBytes qopts)) = (qevs, Inr [])
      \<longrightarrow> Query eng sched qopts = (qevs, Inr []) \<and> spawned qevs = 0)
   \<and> (Get eng (orDefault [] ''go'' (so_Language sopts)) = Some slang
        \<and> newQuery eng (l_SymbolsQuery slang) slang = Inr squery
        \<and> resolveFiles eng slang (so_File sopts) (orDefault [] ''.'' (so_Path sopts))
             (orDefault 0 2097152 (so_MaxBytes sopts)) = (sevs, Inr [])
      \<longrightarrow> Symbols eng sched sopts = (sevs, Inr []) \<and> spawned sevs = 0)
   \<and> (ro_Symbol ropts \<noteq> []
        \<and> Get eng (orDefault [] ''go'' (ro_Language ropts)) = Some rlang
        \<and> newQuery eng (l_RefsQuery rlang) rlang = Inr rquery
        \<and> resolveFiles eng rlang (ro_File ropts) (orDefault [] ''.'' (ro_Path ropts))
             (orDefault 0 2097152 (ro_MaxBytes ropts)) = (revs, Inr [])
      \<longrightarrow> Refs eng sched ropts
            = (revs, Inr (Inr \<lparr>rr_Symbol = ro_Symbol ropts, rr_References = []\<rparr>))
          \<and> spawned revs = 0)"
proof -
  have pools: "files \<noteq> [] \<longrightarrow>
      1 \<le> spawned (fst (runQueryWorkers eng sched language query files jobs))
      \<and> spawned (fst (runQueryWorkers eng sched language query files jobs)) \<le> length files
      \<and> spawned (fst (runQueryWorkers eng sched language query files jobs))
          = nat (max 1 (min jobs (int (length files))))
      \<and> 1 \<le> spawned (fst (runSymbolsWorkers eng sched language query files jobs
                              visibility includeSource maxSourceLines))
      \<and> spawned (fst (runSymbolsWorkers eng sched language query files jobs
                          visibility includeSource maxSourceLines)) \<le> length files
      \<and> spawned (fst (runSymbolsWorkers eng sched language query files jobs
                          visibility includeSource maxSourceLines))
          = nat (max 1 (min jobs (int (length files))))
      \<and> 1 \<le> spawned (fst (runRefsWorkers eng sched language query files jobs
                              symbolName includeContext))
      \<and> spawned (fst (runRefsWorkers eng sched language query files jobs
                          symbolName includeContext)) \<le> length files
      \<and> spawned (fst (runRefsWorkers eng sched language query files jobs
                          symbolName includeContext))
          = nat (max 1 (min jobs (int (length files))))"
  proof
    assume ne: "files \<noteq> []"
    have r: "fst (runRefsWorkers eng sched language query files jobs symbolName includeContext)
        = fst (spawnPool (refsWorker eng language query symbolName includeContext) sched files
                 (clampWorkers jobs files))"
      by (simp add: runRefsWorkers_def split_def)
    show "1 \<le> spawned (fst (runQueryWorkers eng sched language query files jobs))
      \<and> spawned (fst (runQueryWorkers eng sched language query files jobs)) \<le> length files
      \<and> spawned (fst (runQueryWorkers eng sched language query files jobs))
          = nat (max 1 (min jobs (int (length files))))
      \<and> 1 \<le> spawned (fst (runSymbolsWorkers eng sched language query files jobs
                              visibility includeSource maxSourceLines))
      \<and> spawned (fst (runSymbolsWorkers eng sched language query files jobs
                          visibility includeSource maxSourceLines)) \<le> length files
      \<and> spawned (fst (runSymbolsWorkers eng sched language query files jobs
                          visibility includeSource maxSourceLines))
          = nat (max 1 (min jobs (int (length files))))
      \<and> 1 \<le> spawned (fst (runRefsWorkers eng sched language query files jobs
                              symbolName includeContext))
      \<and> spawned (fst (runRefsWorkers eng sched language query files jobs
                          symbolName includeContext)) \<le> length files
      \<and> spawned (fst (runRefsWorkers eng sched language query files jobs
                          symbolName includeContext))
          = nat (max 1 (min jobs (int (length files))))"
      unfolding r runQueryWorkers_def runSymbolsWorkers_def
      using workers_spawned [OF ne, of "queryWorker eng language query" sched jobs]
        workers_spawned [OF ne, of "symbolsWorker eng language query visibility includeSource
           maxSourceLines" sched jobs]
        workers_spawned [OF ne, of "refsWorker eng language query symbolName includeContext"
           sched jobs]
      by simp
  qed
  have q: "qo_Query qopts \<noteq> []
        \<and> Get eng (orDefault [] ''go'' (qo_Language qopts)) = Some qlang
        \<and> newQuery eng (qo_Query qopts) qlang = Inr qquery
        \<and> resolveFiles eng qlang (qo_File qopts) (orDefault [] ''.'' (qo_Path qopts))
             (orDefault 0 2097152 (qo_MaxBytes qopts)) = (qevs, Inr [])
      \<longrightarrow> Query eng sched qopts = (qevs, Inr []) \<and> spawned qevs = 0"
    using Query_dispatch [of qopts eng qlang qquery qevs "[]" sched]
      resolveFiles_spawned [of eng qlang "qo_File qopts" "orDefault [] ''.'' (qo_Path qopts)"
        "orDefault 0 2097152 (qo_MaxBytes qopts)" qevs "Inr []"]
    by simp
  have s: "Get eng (orDefault [] ''go'' (so_Language sopts)) = Some slang
        \<and> newQuery eng (l_SymbolsQuery slang) slang = Inr squery
        \<and> resolveFiles eng slang (so_File sopts) (orDefault [] ''.'' (so_Path sopts))
             (orDefault 0 2097152 (so_MaxBytes sopts)) = (sevs, Inr [])
      \<longrightarrow> Symbols eng sched sopts = (sevs, Inr []) \<and> spawned sevs = 0"
    using Symbols_dispatch [of eng sopts slang squery sevs "[]" sched]
      resolveFiles_spawned [of eng slang "so_File sopts" "orDefault [] ''.'' (so_Path sopts)"
        "orDefault 0 2097152 (so_MaxBytes sopts)" sevs "Inr []"]
    by simp
  have r: "ro_Symbol ropts \<noteq> []
        \<and> Get eng (orDefault [] ''go'' (ro_Language ropts)) = Some rlang
        \<and> newQuery eng (l_RefsQuery rlang) rlang = Inr rquery
        \<and> resolveFiles eng rlang (ro_File ropts) (orDefault [] ''.'' (ro_Path ropts))
             (orDefault 0 2097152 (ro_MaxBytes ropts)) = (revs, Inr [])
      \<longrightarrow> Refs eng sched ropts
            = (revs, Inr (Inr \<lparr>rr_Symbol = ro_Symbol ropts, rr_References = []\<rparr>))
          \<and> spawned revs = 0"
    using Refs_dispatch [of ropts eng rlang rquery revs "[]" sched]
      resolveFiles_spawned [of eng rlang "ro_File ropts" "orDefault [] ''.'' (ro_Path ropts)"
        "orDefault 0 2097152 (ro_MaxBytes ropts)" revs "Inr []"]
    by simp
  from pools q s r show ?thesis by (intro conjI)
qed

lemmas engine_ex_defs = example_engine_def example_go_def example_files_def
  example_query_options_def example_symbols_options_def example_refs_options_def
  orDefault_def Get_def newQuery_def resolveFiles_def Let_def

theorem worker_count_clamped_witness:
  "example_files \<noteq> []
   \<and> spawned (fst (runQueryWorkers example_engine [1, 0, 1] example_go ''q'' example_files 0)) = 1
   \<and> spawned (fst (runSymbolsWorkers example_engine [1, 0, 1] example_go ''q'' example_files 8
                     ''all'' False 10)) = 3
   \<and> spawned (fst (runRefsWorkers example_engine [1, 0, 1] example_go ''q'' example_files (- 3)
                     ''Hello'' True)) = 1
   \<and> Query example_engine [1, 0, 1] (example_query_options\<lparr>qo_Path := ''empty''\<rparr>)
       = ([EvCollect \<lparr>sc_root = ''empty'', sc_language = example_go, sc_maxBytes = 2097152\<rparr>],
          Inr [])"
proof -
  have ne: "example_files \<noteq> []" by (simp add: example_files_def)
  have len: "length example_files = 3" by (simp add: example_files_def)
  have hq: "qo_Query (example_query_options\<lparr>qo_Path := ''empty''\<rparr>) \<noteq> []
        \<and> Get example_engine (orDefault [] ''go''
              (qo_Language (example_query_options\<lparr>qo_Path := ''empty''\<rparr>))) = Some example_go
        \<and> newQuery example_engine (qo_Query (example_query_options\<lparr>qo_Path := ''empty''\<rparr>))
              example_go = Inr ''(function_declaration) @function''
        \<and> resolveFiles example_engine example_go
             (qo_File (example_query_options\<lparr>qo_Path := ''empty''\<rparr>))
             (orDefault [] ''.'' (qo_Path (example_query_options\<lparr>qo_Path := ''empty''\<rparr>)))
             (orDefault 0 2097152 (qo_MaxBytes (example_query_options\<lparr>qo_Path := ''empty''\<rparr>)))
           = ([EvCollect \<lparr>sc_root = ''empty'', sc_language = example_go,
                           sc_maxBytes = 2097152\<rparr>], Inr [])"
    by (simp add: engine_ex_defs)
  show ?thesis
    using ne len hq
      worker_count_clamped [of example_files example_engine "[1, 0, 1]" example_go "''q''" 0
        "''all''" False 10 "''Hello''" True
        "example_query_options\<lparr>qo_Path := ''empty''\<rparr>" example_go
        "''(function_declaration) @function''"
        "[EvCollect \<lparr>sc_root = ''empty'', sc_language = example_go, sc_maxBytes = 2097152\<rparr>]"]
      worker_count_clamped [of example_files example_engine "[1, 0, 1]" example_go "''q''" 8
        "''all''" False 10 "''Hello''" True]
      worker_count_clamped [of example_files example_engine "[1, 0, 1]" example_go "''q''" "- 3"
        "''all''" False 10 "''Hello''" True]
    by simp
qed





lemma queryWorker_eq:
  "queryWorker eng language query job =
     (if readable eng language job then fileMatches eng language query job else [])"
  by (auto simp: queryWorker_def readable_def fileMatches_def fileSource_def
      split: sum.splits prod.splits)

lemma symbolsWorker_eq:
  "symbolsWorker eng language query visibility includeSource maxSourceLines job =
     (if readable eng language job
      then fileSymbols eng language query visibility includeSource maxSourceLines job else [])"
  by (auto simp: symbolsWorker_def readable_def fileSymbols_def fileMatches_def fileSource_def
      Let_def split: sum.splits prod.splits)

lemma refsWorker_eq:
  "refsWorker eng language query symbolName includeContext job =
     map Inr (if readable eng language job
              then fileReferences eng language query symbolName includeContext job else [])"
  by (auto simp: refsWorker_def readable_def fileReferences_def fileMatches_def fileSource_def
      findReferences_eq Let_def split: sum.splits prod.splits)

lemma concat_readable:
  "mset (concat (map (\<lambda>job. if P job then c job else []) files))
     = (\<Sum>job\<leftarrow>filter P files. mset (c job))"
  by (induction files) simp_all

lemma firstPanic_Inr: "firstPanic (map Inr xs) = Inr xs"
  by (induction xs) simp_all

lemma mset_eq_map_Inr:
  fixes items :: "('p + 'a) list" and xs :: "'a list"
  assumes a: "mset items = mset (map Inr xs)"
  shows "\<exists>ys. items = map Inr ys \<and> mset ys = mset xs"
proof -
  let ?inr = "Inr :: 'a \<Rightarrow> 'p + 'a"
  have "set items = set (map ?inr xs)" using a by (rule mset_eq_setD)
  then have all: "\<forall>x \<in> set items. \<exists>y. x = Inr y" by auto
  have items: "items = map Inr (map projr items)"
    using all by (induction items) auto
  have "mset (map projr items) = image_mset projr (mset items)" by simp
  also have "\<dots> = image_mset projr (mset (map ?inr xs))" by (simp only: a)
  also have "\<dots> = image_mset (projr \<circ> ?inr) (mset xs)"
    by (simp add: multiset.map_comp)
  also have "\<dots> = mset xs" by (simp add: comp_def)
  finally show ?thesis using items by blast
qed

lemma runQueryWorkers_mset:
  "files \<noteq> [] \<Longrightarrow>
   mset (snd (runQueryWorkers eng sched language query files jobs))
     = (\<Sum>job\<leftarrow>filter (readable eng language) files. mset (fileMatches eng language query job))"
proof -
  assume ne: "files \<noteq> []"
  have k: "1 \<le> clampWorkers jobs files" using clampWorkers_range [OF ne] by simp
  have w: "queryWorker eng language query
      = (\<lambda>job. if readable eng language job then fileMatches eng language query job else [])"
    by (rule ext) (rule queryWorker_eq)
  show ?thesis
    unfolding runQueryWorkers_def
    by (simp only: spawnPool_mset [OF k] w concat_readable)
qed

lemma runSymbolsWorkers_mset:
  "files \<noteq> [] \<Longrightarrow>
   mset (snd (runSymbolsWorkers eng sched language query files jobs visibility includeSource
                maxSourceLines))
     = (\<Sum>job\<leftarrow>filter (readable eng language) files.
          mset (fileSymbols eng language query visibility includeSource maxSourceLines job))"
proof -
  assume ne: "files \<noteq> []"
  have k: "1 \<le> clampWorkers jobs files" using clampWorkers_range [OF ne] by simp
  have w: "symbolsWorker eng language query visibility includeSource maxSourceLines
      = (\<lambda>job. if readable eng language job
               then fileSymbols eng language query visibility includeSource maxSourceLines job
               else [])"
    by (rule ext) (rule symbolsWorker_eq)
  show ?thesis
    unfolding runSymbolsWorkers_def
    by (simp only: spawnPool_mset [OF k] w concat_readable)
qed

lemma runRefsWorkers_mset:
  "files \<noteq> [] \<Longrightarrow>
   \<exists>refs. snd (runRefsWorkers eng sched language query files jobs symbolName includeContext)
            = Inr refs
     \<and> mset refs
         = (\<Sum>job\<leftarrow>filter (readable eng language) files.
              mset (fileReferences eng language query symbolName includeContext job))"
proof -
  assume ne: "files \<noteq> []"
  have k: "1 \<le> clampWorkers jobs files" using clampWorkers_range [OF ne] by simp
  let ?c = "\<lambda>job. if readable eng language job
                   then fileReferences eng language query symbolName includeContext job else []"
  let ?items = "snd (spawnPool (refsWorker eng language query symbolName includeContext)
                       sched files (clampWorkers jobs files))"
  have w: "refsWorker eng language query symbolName includeContext = (\<lambda>job. map Inr (?c job))"
    by (rule ext) (rule refsWorker_eq)
  have "mset ?items = mset (concat (map (\<lambda>job. map Inr (?c job)) files))"
    by (simp only: spawnPool_mset [OF k] w)
  also have "concat (map (\<lambda>job. map Inr (?c job)) files) = map Inr (concat (map ?c files))"
    by (simp add: map_concat comp_def)
  finally obtain ys where ys: "?items = map Inr ys" "mset ys = mset (concat (map ?c files))"
    using mset_eq_map_Inr by blast
  have "snd (runRefsWorkers eng sched language query files jobs symbolName includeContext)
          = firstPanic ?items"
    by (simp add: runRefsWorkers_def split_def)
  then have "snd (runRefsWorkers eng sched language query files jobs symbolName includeContext)
          = Inr ys"
    by (simp add: ys firstPanic_Inr)
  moreover have "mset ys = (\<Sum>job\<leftarrow>filter (readable eng language) files.
              mset (fileReferences eng language query symbolName includeContext job))"
    by (simp only: ys concat_readable)
  ultimately show ?thesis by blast
qed

text \<open>
  C3. A file whose read or parse fails gives no item in any of the three pools. When
  the configuration is valid, the query compiles and the file set is resolved, \<open>Query\<close>,
  \<open>Symbols\<close> and \<open>Refs\<close> return a result and not an error, whatever files fail, and for
  every interleaving of the workers the result holds, as a multiset, exactly the items
  of the readable files: each readable file contributes what it contributes alone, and
  the files that fail contribute nothing.
\<close>

theorem unreadable_files_skipped:
  "(\<not> readable eng language job \<longrightarrow>
      queryWorker eng language query job = []
      \<and> symbolsWorker eng language query visibility includeSource maxSourceLines job = []
      \<and> refsWorker eng language query symbolName includeContext job = [])
   \<and> (qo_Query qopts \<noteq> []
        \<and> Get eng (orDefault [] ''go'' (qo_Language qopts)) = Some qlang
        \<and> newQuery eng (qo_Query qopts) qlang = Inr qquery
        \<and> resolveFiles eng qlang (qo_File qopts) (orDefault [] ''.'' (qo_Path qopts))
             (orDefault 0 2097152 (qo_MaxBytes qopts)) = (qevs, Inr qfiles)
      \<longrightarrow> (\<exists>matches. snd (Query eng sched qopts) = Inr matches
            \<and> mset matches
                = (\<Sum>job\<leftarrow>filter (readable eng qlang) qfiles.
                     mset (fileMatches eng qlang qquery job))))
   \<and> (Get eng (orDefault [] ''go'' (so_Language sopts)) = Some slang
        \<and> newQuery eng (l_SymbolsQuery slang) slang = Inr squery
        \<and> resolveFiles eng slang (so_File sopts) (orDefault [] ''.'' (so_Path sopts))
             (orDefault 0 2097152 (so_MaxBytes sopts)) = (sevs, Inr sfiles)
      \<longrightarrow> (\<exists>results. snd (Symbols eng sched sopts) = Inr results
            \<and> mset results
                = (\<Sum>job\<leftarrow>filter (readable eng slang) sfiles.
                     mset (fileSymbols eng slang squery
                             (orDefault [] ''all'' (so_Visibility sopts))
                             (so_IncludeSource sopts)
                             (orDefault 0 10 (so_MaxSourceLines sopts)) job))))
   \<and> (ro_Symbol ropts \<noteq> []
        \<and> Get eng (orDefault [] ''go'' (ro_Language ropts)) = Some rlang
        \<and> newQuery eng (l_RefsQuery rlang) rlang = Inr rquery
        \<and> resolveFiles eng rlang (ro_File ropts) (orDefault [] ''.'' (ro_Path ropts))
             (orDefault 0 2097152 (ro_MaxBytes ropts)) = (revs, Inr rfiles)
      \<longrightarrow> (\<exists>refs. snd (Refs eng sched ropts)
                     = Inr (Inr \<lparr>rr_Symbol = ro_Symbol ropts, rr_References = refs\<rparr>)
            \<and> mset refs
                = (\<Sum>job\<leftarrow>filter (readable eng rlang) rfiles.
                     mset (fileReferences eng rlang rquery (ro_Symbol ropts)
                             (ro_IncludeContext ropts) job))))"
proof -
  have skip: "\<not> readable eng language job \<longrightarrow>
      queryWorker eng language query job = []
      \<and> symbolsWorker eng language query visibility includeSource maxSourceLines job = []
      \<and> refsWorker eng language query symbolName includeContext job = []"
    by (simp add: queryWorker_eq symbolsWorker_eq refsWorker_eq)
  have q: "qo_Query qopts \<noteq> []
        \<and> Get eng (orDefault [] ''go'' (qo_Language qopts)) = Some qlang
        \<and> newQuery eng (qo_Query qopts) qlang = Inr qquery
        \<and> resolveFiles eng qlang (qo_File qopts) (orDefault [] ''.'' (qo_Path qopts))
             (orDefault 0 2097152 (qo_MaxBytes qopts)) = (qevs, Inr qfiles)
      \<longrightarrow> (\<exists>matches. snd (Query eng sched qopts) = Inr matches
            \<and> mset matches
                = (\<Sum>job\<leftarrow>filter (readable eng qlang) qfiles.
                     mset (fileMatches eng qlang qquery job)))"
  proof
    assume a: "qo_Query qopts \<noteq> []
        \<and> Get eng (orDefault [] ''go'' (qo_Language qopts)) = Some qlang
        \<and> newQuery eng (qo_Query qopts) qlang = Inr qquery
        \<and> resolveFiles eng qlang (qo_File qopts) (orDefault [] ''.'' (qo_Path qopts))
             (orDefault 0 2097152 (qo_MaxBytes qopts)) = (qevs, Inr qfiles)"
    note d = Query_dispatch [of qopts eng qlang qquery qevs qfiles sched]
    show "\<exists>matches. snd (Query eng sched qopts) = Inr matches
            \<and> mset matches
                = (\<Sum>job\<leftarrow>filter (readable eng qlang) qfiles.
                     mset (fileMatches eng qlang qquery job))"
    proof (cases "qfiles = []")
      case True
      then show ?thesis using a d by simp
    next
      case False
      then show ?thesis
        using a d runQueryWorkers_mset [OF False, of eng sched qlang qquery] by simp
    qed
  qed
  have s: "Get eng (orDefault [] ''go'' (so_Language sopts)) = Some slang
        \<and> newQuery eng (l_SymbolsQuery slang) slang = Inr squery
        \<and> resolveFiles eng slang (so_File sopts) (orDefault [] ''.'' (so_Path sopts))
             (orDefault 0 2097152 (so_MaxBytes sopts)) = (sevs, Inr sfiles)
      \<longrightarrow> (\<exists>results. snd (Symbols eng sched sopts) = Inr results
            \<and> mset results
                = (\<Sum>job\<leftarrow>filter (readable eng slang) sfiles.
                     mset (fileSymbols eng slang squery
                             (orDefault [] ''all'' (so_Visibility sopts))
                             (so_IncludeSource sopts)
                             (orDefault 0 10 (so_MaxSourceLines sopts)) job)))"
  proof
    assume a: "Get eng (orDefault [] ''go'' (so_Language sopts)) = Some slang
        \<and> newQuery eng (l_SymbolsQuery slang) slang = Inr squery
        \<and> resolveFiles eng slang (so_File sopts) (orDefault [] ''.'' (so_Path sopts))
             (orDefault 0 2097152 (so_MaxBytes sopts)) = (sevs, Inr sfiles)"
    note d = Symbols_dispatch [of eng sopts slang squery sevs sfiles sched]
    show "\<exists>results. snd (Symbols eng sched sopts) = Inr results
            \<and> mset results
                = (\<Sum>job\<leftarrow>filter (readable eng slang) sfiles.
                     mset (fileSymbols eng slang squery
                             (orDefault [] ''all'' (so_Visibility sopts))
                             (so_IncludeSource sopts)
                             (orDefault 0 10 (so_MaxSourceLines sopts)) job))"
    proof (cases "sfiles = []")
      case True
      then show ?thesis using a d by simp
    next
      case False
      then show ?thesis
        using a d runSymbolsWorkers_mset [OF False, of eng sched slang squery] by simp
    qed
  qed
  have r: "ro_Symbol ropts \<noteq> []
        \<and> Get eng (orDefault [] ''go'' (ro_Language ropts)) = Some rlang
        \<and> newQuery eng (l_RefsQuery rlang) rlang = Inr rquery
        \<and> resolveFiles eng rlang (ro_File ropts) (orDefault [] ''.'' (ro_Path ropts))
             (orDefault 0 2097152 (ro_MaxBytes ropts)) = (revs, Inr rfiles)
      \<longrightarrow> (\<exists>refs. snd (Refs eng sched ropts)
                     = Inr (Inr \<lparr>rr_Symbol = ro_Symbol ropts, rr_References = refs\<rparr>)
            \<and> mset refs
                = (\<Sum>job\<leftarrow>filter (readable eng rlang) rfiles.
                     mset (fileReferences eng rlang rquery (ro_Symbol ropts)
                             (ro_IncludeContext ropts) job)))"
  proof
    assume a: "ro_Symbol ropts \<noteq> []
        \<and> Get eng (orDefault [] ''go'' (ro_Language ropts)) = Some rlang
        \<and> newQuery eng (l_RefsQuery rlang) rlang = Inr rquery
        \<and> resolveFiles eng rlang (ro_File ropts) (orDefault [] ''.'' (ro_Path ropts))
             (orDefault 0 2097152 (ro_MaxBytes ropts)) = (revs, Inr rfiles)"
    note d = Refs_dispatch [of ropts eng rlang rquery revs rfiles sched]
    show "\<exists>refs. snd (Refs eng sched ropts)
                     = Inr (Inr \<lparr>rr_Symbol = ro_Symbol ropts, rr_References = refs\<rparr>)
            \<and> mset refs
                = (\<Sum>job\<leftarrow>filter (readable eng rlang) rfiles.
                     mset (fileReferences eng rlang rquery (ro_Symbol ropts)
                             (ro_IncludeContext ropts) job))"
    proof (cases "rfiles = []")
      case True
      then show ?thesis using a d by simp
    next
      case False
      obtain refs where refs:
        "snd (runRefsWorkers eng sched rlang rquery rfiles
                (orDefault 0 (runtime_NumCPU eng) (ro_Jobs ropts))
                (ro_Symbol ropts) (ro_IncludeContext ropts)) = Inr refs"
        "mset refs = (\<Sum>job\<leftarrow>filter (readable eng rlang) rfiles.
                     mset (fileReferences eng rlang rquery (ro_Symbol ropts)
                             (ro_IncludeContext ropts) job))"
        using runRefsWorkers_mset [OF False, of eng sched rlang rquery
            "orDefault 0 (runtime_NumCPU eng) (ro_Jobs ropts)" "ro_Symbol ropts"
            "ro_IncludeContext ropts"]
        by auto
      show ?thesis using a d False refs by simp
    qed
  qed
  from skip q s r show ?thesis by (intro conjI)
qed

theorem unreadable_files_skipped_witness:
  "\<not> readable example_engine example_go \<lparr>AbsPath = ''/repo/b.go'', DisplayPath = ''b.go''\<rparr>
   \<and> queryWorker example_engine example_go ''(function_declaration) @function''
        \<lparr>AbsPath = ''/repo/b.go'', DisplayPath = ''b.go''\<rparr> = []
   \<and> \<not> isl (snd (Query example_engine [1, 0, 1, 1] example_query_options))
   \<and> mset (projr (snd (Query example_engine [1, 0, 1, 1] example_query_options)))
       = mset (example_run [] [] ''func Hello() {}'' ''a.go''
               @ example_run [] [] ''func world() {}'' ''c.go'')"
proof -
  let ?b = "\<lparr>AbsPath = ''/repo/b.go'', DisplayPath = ''b.go''\<rparr>"
  let ?q = "''(function_declaration) @function''"
  have nb: "\<not> readable example_engine example_go ?b"
    by (simp add: readable_def parseFile_def example_engine_def)
  have hq: "qo_Query example_query_options \<noteq> []
        \<and> Get example_engine (orDefault [] ''go'' (qo_Language example_query_options))
            = Some example_go
        \<and> newQuery example_engine (qo_Query example_query_options) example_go = Inr ?q
        \<and> resolveFiles example_engine example_go (qo_File example_query_options)
             (orDefault [] ''.'' (qo_Path example_query_options))
             (orDefault 0 2097152 (qo_MaxBytes example_query_options))
           = ([EvCollect \<lparr>sc_root = ''src'', sc_language = example_go,
                           sc_maxBytes = 2097152\<rparr>], Inr example_files)"
    by (simp add: engine_ex_defs)
  note t = unreadable_files_skipped [of example_engine example_go ?b ?q "''all''" False 10
      "''Hello''" True example_query_options example_go ?q
      "[EvCollect \<lparr>sc_root = ''src'', sc_language = example_go, sc_maxBytes = 2097152\<rparr>]"
      example_files "[1, 0, 1, 1]"]
  have w: "queryWorker example_engine example_go ?q ?b = []"
    using t [THEN conjunct1, THEN mp, OF nb] by (rule conjunct1)
  obtain matches where m: "snd (Query example_engine [1, 0, 1, 1] example_query_options) = Inr matches"
    and ms: "mset matches = (\<Sum>job\<leftarrow>filter (readable example_engine example_go) example_files.
                     mset (fileMatches example_engine example_go ?q job))"
    using t [THEN conjunct2, THEN conjunct1, THEN mp, OF hq] by blast
  have sum: "(\<Sum>job\<leftarrow>filter (readable example_engine example_go) example_files.
                     mset (fileMatches example_engine example_go ?q job))
       = mset (example_run [] [] ''func Hello() {}'' ''a.go''
               @ example_run [] [] ''func world() {}'' ''c.go'')"
    by (simp add: readable_def fileMatches_def fileSource_def parseFile_def example_engine_def
          example_files_def example_run_def)
  from nb w m ms sum show ?thesis by simp
qed

end
